theory Spec2Isabelle
  imports Complex_Main
begin

section \<open>JavaScript numbers\<close>

text \<open>
  A JavaScript number is modelled as a finite value, one of the two infinities, or NaN.
  Finite values are exact reals: rounding, overflow of finite results and the sign of
  zero are not modelled (rounding and overflow are added for the implode step, in the
  section on double arithmetic). Everything that decides a branch in the source on a non-finite
  value (a division by zero, \<open>Infinity - Infinity\<close>, a comparison with NaN,
  \<open>isFinite\<close>) is written out.
\<close>

datatype jsnum = Fin real | PInf | NInf | NaN

instantiation jsnum :: "{plus, minus, uminus, times, inverse, ord}"
begin

fun plus_jsnum :: "jsnum \<Rightarrow> jsnum \<Rightarrow> jsnum" where
  "plus_jsnum NaN b = NaN"
| "plus_jsnum a NaN = NaN"
| "plus_jsnum (Fin a) (Fin b) = Fin (a + b)"
| "plus_jsnum PInf NInf = NaN"
| "plus_jsnum NInf PInf = NaN"
| "plus_jsnum PInf b = PInf"
| "plus_jsnum a PInf = PInf"
| "plus_jsnum NInf b = NInf"
| "plus_jsnum a NInf = NInf"

fun uminus_jsnum :: "jsnum \<Rightarrow> jsnum" where
  "uminus_jsnum (Fin a) = Fin (- a)"
| "uminus_jsnum PInf = NInf"
| "uminus_jsnum NInf = PInf"
| "uminus_jsnum NaN = NaN"

definition minus_jsnum :: "jsnum \<Rightarrow> jsnum \<Rightarrow> jsnum" where
  "minus_jsnum a b = a + (- b)"

fun times_jsnum :: "jsnum \<Rightarrow> jsnum \<Rightarrow> jsnum" where
  "times_jsnum NaN b = NaN"
| "times_jsnum a NaN = NaN"
| "times_jsnum (Fin a) (Fin b) = Fin (a * b)"
| "times_jsnum (Fin a) PInf = (if a = 0 then NaN else if 0 < a then PInf else NInf)"
| "times_jsnum (Fin a) NInf = (if a = 0 then NaN else if 0 < a then NInf else PInf)"
| "times_jsnum PInf (Fin b) = (if b = 0 then NaN else if 0 < b then PInf else NInf)"
| "times_jsnum NInf (Fin b) = (if b = 0 then NaN else if 0 < b then NInf else PInf)"
| "times_jsnum PInf PInf = PInf"
| "times_jsnum PInf NInf = NInf"
| "times_jsnum NInf PInf = NInf"
| "times_jsnum NInf NInf = PInf"

fun divide_jsnum :: "jsnum \<Rightarrow> jsnum \<Rightarrow> jsnum" where
  "divide_jsnum NaN b = NaN"
| "divide_jsnum a NaN = NaN"
| "divide_jsnum (Fin a) (Fin b) =
     (if b = 0 then (if a = 0 then NaN else if 0 < a then PInf else NInf)
      else Fin (a / b))"
| "divide_jsnum (Fin a) b = Fin 0"
| "divide_jsnum PInf (Fin b) = (if 0 \<le> b then PInf else NInf)"
| "divide_jsnum NInf (Fin b) = (if 0 \<le> b then NInf else PInf)"
| "divide_jsnum a b = NaN"

definition inverse_jsnum :: "jsnum \<Rightarrow> jsnum" where
  "inverse_jsnum a = divide (Fin 1) a"

fun less_jsnum :: "jsnum \<Rightarrow> jsnum \<Rightarrow> bool" where
  "less_jsnum (Fin a) (Fin b) = (a < b)"
| "less_jsnum (Fin a) PInf = True"
| "less_jsnum NInf (Fin b) = True"
| "less_jsnum NInf PInf = True"
| "less_jsnum a b = False"

definition less_eq_jsnum :: "jsnum \<Rightarrow> jsnum \<Rightarrow> bool" where
  "less_eq_jsnum a b = (a < b \<or> (a = b \<and> a \<noteq> NaN))"

instance ..

end

text \<open>\<open>Math.min\<close> and \<open>Math.max\<close>: NaN if an argument is NaN.\<close>

definition js_min :: "jsnum \<Rightarrow> jsnum \<Rightarrow> jsnum" where
  "js_min a b = (if a = NaN \<or> b = NaN then NaN else if a \<le> b then a else b)"

definition js_max :: "jsnum \<Rightarrow> jsnum \<Rightarrow> jsnum" where
  "js_max a b = (if a = NaN \<or> b = NaN then NaN else if a \<le> b then b else a)"

fun isFinite :: "jsnum \<Rightarrow> bool" where
  "isFinite (Fin a) = True"
| "isFinite a = False"

fun js_floor :: "jsnum \<Rightarrow> jsnum" where
  "js_floor (Fin a) = Fin (of_int \<lfloor>a\<rfloor>)"
| "js_floor a = a"

fun js_sqrt :: "jsnum \<Rightarrow> jsnum" where
  "js_sqrt (Fin a) = (if a < 0 then NaN else Fin (sqrt a))"
| "js_sqrt PInf = PInf"
| "js_sqrt a = NaN"

text \<open>\<open>Math.pow(b, n)\<close> for a natural exponent \<open>n\<close>.\<close>

fun js_pow :: "jsnum \<Rightarrow> nat \<Rightarrow> jsnum" where
  "js_pow (Fin a) n = Fin (a ^ n)"
| "js_pow PInf n = (if n = 0 then Fin 1 else PInf)"
| "js_pow NInf n = (if n = 0 then Fin 1 else if odd n then NInf else PInf)"
| "js_pow NaN n = (if n = 0 then Fin 1 else NaN)"

text \<open>\<open>Math.pow(2, x)\<close>.\<close>

fun js_exp2 :: "jsnum \<Rightarrow> jsnum" where
  "js_exp2 (Fin a) = Fin (2 powr a)"
| "js_exp2 PInf = PInf"
| "js_exp2 NInf = Fin 0"
| "js_exp2 NaN = NaN"

fun js_cos :: "jsnum \<Rightarrow> jsnum" where
  "js_cos (Fin a) = Fin (cos a)"
| "js_cos a = NaN"

fun js_sin :: "jsnum \<Rightarrow> jsnum" where
  "js_sin (Fin a) = Fin (sin a)"
| "js_sin a = NaN"

text \<open>\<open>Math.atan2(y, x)\<close>, the angle of the point \<open>(x, y)\<close>.\<close>

fun js_atan2 :: "jsnum \<Rightarrow> jsnum \<Rightarrow> jsnum" where
  "js_atan2 NaN x = NaN"
| "js_atan2 y NaN = NaN"
| "js_atan2 (Fin y) (Fin x) =
     (if 0 < x then Fin (arctan (y / x))
      else if x < 0 then (if 0 \<le> y then Fin (arctan (y / x) + pi) else Fin (arctan (y / x) - pi))
      else if 0 < y then Fin (pi / 2) else if y < 0 then Fin (- pi / 2) else Fin 0)"
| "js_atan2 (Fin y) PInf = Fin 0"
| "js_atan2 (Fin y) NInf = (if 0 \<le> y then Fin pi else Fin (- pi))"
| "js_atan2 PInf (Fin x) = Fin (pi / 2)"
| "js_atan2 NInf (Fin x) = Fin (- pi / 2)"
| "js_atan2 PInf PInf = Fin (pi / 4)"
| "js_atan2 PInf NInf = Fin (3 * pi / 4)"
| "js_atan2 NInf PInf = Fin (- pi / 4)"
| "js_atan2 NInf NInf = Fin (- 3 * pi / 4)"

section \<open>Easing (easing.ts) and the constants of types.ts\<close>

definition easeInOutCubic :: "jsnum \<Rightarrow> jsnum" where
  "easeInOutCubic t =
     (if t < Fin (1 / 2) then Fin 4 * t * t * t
      else Fin 1 - js_pow (Fin (- 2) * t + Fin 2) 3 / Fin 2)"

definition easeOutExponential :: "jsnum \<Rightarrow> jsnum" where
  "easeOutExponential t =
     (if t = Fin 1 then Fin 1 else Fin 1 - js_exp2 (Fin (- 10) * t))"

definition explodeForce :: jsnum where
  "explodeForce = Fin 2"

definition implodeSpeed :: jsnum where
  "implodeSpeed = Fin (2 / 100)"


section \<open>Particle sets (the InstancedMesh built by imageToParticles)\<close>

record userdata =
  positions :: "jsnum list"
  originalPositions :: "jsnum list"
  velocities :: "jsnum list"
  colors :: "jsnum list"
  delays :: "jsnum list"
  count :: nat

text \<open>
  Of a \<open>THREE.InstancedMesh\<close> the model keeps what the component reads or writes: the
  \<open>userData\<close> object (absent where the source tests \<open>!userData\<close>), the translation
  written by \<open>setMatrixAt\<close> for each instance, \<open>material.opacity\<close>, and how often
  \<open>geometry.dispose()\<close> and \<open>material.dispose()\<close> were called.
\<close>

record mesh =
  userData :: "userdata option"
  instanceMatrix :: "(jsnum \<times> jsnum \<times> jsnum) list"
  opacity :: jsnum
  geometryDisposed :: nat
  materialDisposed :: nat

text \<open>
  Array reads of the form \<open>xs[i] ?? 0\<close> and array writes \<open>xs[i] = v\<close>. A write past the
  end extends the array; the slots skipped are holes, which every read of these arrays
  takes as 0.
\<close>

definition js_get :: "jsnum list \<Rightarrow> nat \<Rightarrow> jsnum" where
  "js_get xs i = (if i < length xs then xs ! i else Fin 0)"

definition js_set :: "jsnum list \<Rightarrow> nat \<Rightarrow> jsnum \<Rightarrow> jsnum list" where
  "js_set xs i v =
     (if i < length xs then xs[i := v]
      else xs @ replicate (i - length xs) (Fin 0) @ [v])"

text \<open>
  The three animation loops and the two seeding loops have one shape: for each particle
  \<open>i < count\<close>, compute a point and store it in \<open>positions[3i .. 3i+2]\<close> and in the
  instance matrix \<open>i\<close> (\<open>setMatrixAt\<close> ignores an index outside the instance buffer).
\<close>

definition storeParticle ::
  "nat \<Rightarrow> jsnum \<times> jsnum \<times> jsnum \<Rightarrow> jsnum list \<times> (jsnum \<times> jsnum \<times> jsnum) list
     \<Rightarrow> jsnum list \<times> (jsnum \<times> jsnum \<times> jsnum) list" where
  "storeParticle i p st =
     (case p of (x, y, z) \<Rightarrow>
        (js_set (js_set (js_set (fst st) (i * 3) x) (i * 3 + 1) y) (i * 3 + 2) z,
         (snd st)[i := (x, y, z)]))"

definition forParticles ::
  "nat \<Rightarrow> (nat \<Rightarrow> jsnum list \<Rightarrow> jsnum \<times> jsnum \<times> jsnum)
     \<Rightarrow> jsnum list \<times> (jsnum \<times> jsnum \<times> jsnum) list
     \<Rightarrow> jsnum list \<times> (jsnum \<times> jsnum \<times> jsnum) list" where
  "forParticles n body st =
     foldl (\<lambda>acc i. storeParticle i (body i (fst acc)) acc) st [0 ..< n]"

section \<open>Component state\<close>

record props =
  images :: "string list"
  particleDensity :: jsnum
  transitionDuration :: jsnum
  autoAdvance :: bool
  autoAdvanceInterval :: jsnum

text \<open>
  The closure of one \<open>animateTransition\<close>: the variables \<open>startTime\<close>, \<open>duration\<close> and
  \<open>nextIndex\<close> it captures.
\<close>

record session =
  startTime :: int
  duration :: jsnum
  nextIndex :: nat

text \<open>
  The free-standing \<open>let\<close> variables of the component that the particle code uses. Meshes
  are objects with identity: \<open>meshes\<close> is the store, \<open>scene\<close> lists the particle sets
  among the scene's children, and \<open>currentParticles\<close>, \<open>nextParticles\<close> hold references.
  \<open>camera\<close> is the field of view (degrees) of the perspective camera, once created.
  The last six fields record effects on the browser: the callback waiting for the next
  animation frame (\<open>animateTransition\<close> with its closure, or \<open>animateInitial\<close> with its
  \<open>startTime\<close> and \<open>duration\<close>), the pending auto-advance timeouts, the handles given
  out, the number of \<open>Math.random()\<close> calls made, the images requested and the number of
  \<open>console.error\<close> calls.
\<close>

datatype callback = TransitionFrame session | InitialFrame int jsnum

record driver =
  meshes :: "nat \<Rightarrow> mesh"
  nextMesh :: nat
  scene :: "nat list"
  camera :: "jsnum option"
  currentParticles :: "nat option"
  nextParticles :: "nat option"
  currentImageIndex :: nat
  isTransitioning :: bool
  animationFrameId :: "nat option"
  autoAdvanceTimer :: "nat option"
  targetCameraZ :: jsnum
  frameCallback :: "callback option"
  timeouts :: "nat list"
  nextHandle :: nat
  randomUsed :: nat
  loadLog :: "string list"
  errorLog :: nat

record image =
  imgComplete :: bool
  naturalWidth :: nat
  naturalHeight :: nat

text \<open>
  What the browser supplies: the outcome of loading an image (\<open>None\<close>: \<open>onerror\<close>
  fires), whether the canvas gives a 2d context, the RGBA bytes \<open>getImageData\<close> returns
  after the image was drawn into the given rectangle of the cleared, black-filled canvas,
  the values of \<open>Math.random()\<close> in call order, the size three.js computes for
  \<open>Box3.setFromObject\<close> (\<open>None\<close>: the box is empty), and the window size.
\<close>

record env =
  loadImage :: "string \<Rightarrow> image option"
  context2d :: bool
  rasterize :: "string \<Rightarrow> jsnum \<times> jsnum \<times> jsnum \<times> jsnum \<Rightarrow> nat list"
  mathRandom :: "nat \<Rightarrow> real"
  boundingSize :: "mesh \<Rightarrow> (jsnum \<times> jsnum) option"
  innerWidth :: jsnum
  innerHeight :: jsnum

datatype error =
    ImageIncomplete
  | NoCanvasContext
  | InvalidDimensions
  | LoadFailed string


section \<open>Sampler: imageToParticles\<close>

definition canvasSize :: nat where
  "canvasSize = 1600"

fun js_round :: "jsnum \<Rightarrow> jsnum" where
  "js_round (Fin a) = Fin (of_int \<lfloor>a + 1 / 2\<rfloor>)"
| "js_round a = a"

text \<open>The rectangle \<open>(drawX, drawY, drawW, drawH)\<close> passed to \<open>drawImage\<close>.\<close>

definition letterbox :: "nat \<Rightarrow> nat \<Rightarrow> jsnum \<times> jsnum \<times> jsnum \<times> jsnum" where
  "letterbox imgWidth imgHeight =
     (let side = Fin (real canvasSize);
          imgAspect = Fin (real imgWidth) / Fin (real imgHeight);
          drawWidth = (if Fin 1 \<le> imgAspect then side else side * imgAspect);
          drawHeight = (if Fin 1 \<le> imgAspect then side / imgAspect else side);
          offsetX = (if Fin 1 \<le> imgAspect then Fin 0
                     else js_round ((side - drawWidth) / Fin 2));
          offsetY = (if Fin 1 \<le> imgAspect then js_round ((side - drawHeight) / Fin 2)
                     else Fin 0)
      in (js_round offsetX, js_round offsetY, js_round drawWidth, js_round drawHeight))"

definition sampleStep :: "jsnum \<Rightarrow> jsnum" where
  "sampleStep density = js_max (Fin 1) (js_floor (Fin 1 / density))"

text \<open>
  The values a loop \<open>for (v = 0; v < limit; v += step)\<close> visits. \<open>sampleStep\<close> is a whole
  number of at least 1, \<open>Infinity\<close> (density 0) or NaN; with the last two the loop ends
  after its first round.
\<close>

function scanFrom :: "nat \<Rightarrow> nat \<Rightarrow> nat \<Rightarrow> nat list" where
  "scanFrom step limit v =
     (if v < limit \<and> 0 < step then v # scanFrom step limit (v + step) else [])"
  by pat_completeness auto
termination
  by (relation "measure (\<lambda>(step, limit, v). limit - v)") auto

declare scanFrom.simps [simp del]

fun scanCoords :: "jsnum \<Rightarrow> nat \<Rightarrow> nat list" where
  "scanCoords (Fin k) limit = scanFrom (nat \<lfloor>k\<rfloor>) limit 0"
| "scanCoords step limit = (if 0 < limit then [0] else [])"

text \<open>The four arrays the scan fills, and the number of \<open>Math.random()\<close> calls so far.\<close>

record buffers =
  bPositions :: "jsnum list"
  bColors :: "jsnum list"
  bVelocities :: "jsnum list"
  bOriginalPositions :: "jsnum list"
  bRandom :: nat

text \<open>The body of the inner loop at pixel \<open>(x, y)\<close> of a canvas \<open>w\<close> wide and \<open>h\<close> high.\<close>

definition visitPixel ::
  "(nat \<Rightarrow> real) \<Rightarrow> nat list \<Rightarrow> nat \<Rightarrow> nat \<Rightarrow> nat \<Rightarrow> nat \<Rightarrow> buffers \<Rightarrow> buffers" where
  "visitPixel rnd pixels w h y x acc =
     (let index = (y * w + x) * 4 in
      if length pixels \<le> index + 3 then acc
      else
        let r = pixels ! index;
            g = pixels ! (index + 1);
            b = pixels ! (index + 2);
            a = pixels ! (index + 3)
        in if a < 10 then acc
           else
             let rNorm = Fin (real r) / Fin 255;
                 gNorm = Fin (real g) / Fin 255;
                 bNorm = Fin (real b) / Fin 255;
                 normalizedX = Fin (real x) / Fin (real w) * Fin 2 - Fin 1;
                 normalizedY = Fin 1 - Fin (real y) / Fin (real h) * Fin 2
             in acc\<lparr>
                  bPositions := bPositions acc @ [normalizedX, normalizedY, Fin 0],
                  bOriginalPositions :=
                    bOriginalPositions acc @ [normalizedX, normalizedY, Fin 0],
                  bColors := bColors acc @ [rNorm, gNorm, bNorm],
                  bVelocities := bVelocities acc @
                    [- normalizedX * Fin 100, - normalizedY * Fin 10,
                     (Fin (rnd (bRandom acc)) - Fin (1 / 2)) * Fin 2],
                  bRandom := bRandom acc + 1\<rparr>)"

definition scanPixels ::
  "(nat \<Rightarrow> real) \<Rightarrow> nat list \<Rightarrow> nat \<Rightarrow> nat \<Rightarrow> jsnum \<Rightarrow> buffers \<Rightarrow> buffers" where
  "scanPixels rnd pixels w h step acc =
     foldl (\<lambda>acc y. foldl (\<lambda>acc x. visitPixel rnd pixels w h y x acc) acc (scanCoords step w))
       acc (scanCoords step h)"

text \<open>
  Everything after \<open>getImageData\<close>: the scan, the instance colours and matrices, the
  delays and the \<open>userData\<close> object. The second component is the number of
  \<open>Math.random()\<close> calls made, starting at call number \<open>r0\<close>.
\<close>

definition buildMesh ::
  "(nat \<Rightarrow> real) \<Rightarrow> nat \<Rightarrow> nat list \<Rightarrow> nat \<Rightarrow> nat \<Rightarrow> jsnum \<Rightarrow> mesh \<times> nat" where
  "buildMesh rnd r0 pixels w h step =
     (let acc = scanPixels rnd pixels w h step
                  \<lparr>bPositions = [], bColors = [], bVelocities = [],
                   bOriginalPositions = [], bRandom = r0\<rparr>;
          particleCount = length (bPositions acc) div 3;
          instanceColors = map (\<lambda>j. bColors acc ! j) [0 ..< particleCount * 3];
          matrices = map (\<lambda>i. (bPositions acc ! (i * 3), bPositions acc ! (i * 3 + 1),
                                bPositions acc ! (i * 3 + 2))) [0 ..< particleCount];
          delayArray = map (\<lambda>i. Fin (rnd (bRandom acc + i)) * Fin 2000) [0 ..< particleCount]
      in (\<lparr>userData = Some \<lparr>positions = bPositions acc,
                              originalPositions = bOriginalPositions acc,
                              velocities = bVelocities acc,
                              colors = instanceColors,
                              delays = delayArray,
                              count = particleCount\<rparr>,
           instanceMatrix = matrices,
           opacity = Fin (9 / 10),
           geometryDisposed = 0,
           materialDisposed = 0\<rparr>,
          bRandom acc + particleCount - r0))"

text \<open>
  \<open>imageToParticles\<close>: the promise rejects with an error or resolves with a new mesh. The
  new object gets the next free identity in the store.
\<close>

definition imageToParticles ::
  "env \<Rightarrow> props \<Rightarrow> string \<Rightarrow> driver \<Rightarrow> (error + nat) \<times> driver" where
  "imageToParticles e p imageUrl s =
     (let s1 = s\<lparr>loadLog := loadLog s @ [imageUrl]\<rparr> in
      case loadImage e imageUrl of
        None \<Rightarrow> (Inl (LoadFailed imageUrl), s1)
      | Some img \<Rightarrow>
          if \<not> imgComplete img \<or> naturalWidth img = 0 \<or> naturalHeight img = 0
          then (Inl ImageIncomplete, s1)
          else if \<not> context2d e then (Inl NoCanvasContext, s1)
          else if naturalWidth img = 0 \<or> naturalHeight img = 0
          then (Inl InvalidDimensions, s1)
          else
            let pixels = rasterize e imageUrl
                           (letterbox (naturalWidth img) (naturalHeight img));
                built = buildMesh (mathRandom e) (randomUsed s1) pixels canvasSize canvasSize
                          (sampleStep (particleDensity p));
                ident = nextMesh s1
            in (Inr ident,
                s1\<lparr>meshes := (meshes s1)(ident := fst built),
                   nextMesh := ident + 1,
                   randomUsed := randomUsed s1 + snd built\<rparr>))"


section \<open>Camera framer: updateCameraForParticles\<close>

record bounds =
  minX :: jsnum
  maxX :: jsnum
  minY :: jsnum
  maxY :: jsnum
  minZ :: jsnum
  maxZ :: jsnum

definition initialBounds :: bounds where
  "initialBounds =
     \<lparr>minX = PInf, maxX = NInf, minY = PInf, maxY = NInf, minZ = PInf, maxZ = NInf\<rparr>"

definition extendBounds :: "jsnum list \<Rightarrow> bounds \<Rightarrow> nat \<Rightarrow> bounds" where
  "extendBounds ps b i =
     (let x = js_get ps (i * 3);
          y = js_get ps (i * 3 + 1);
          z = js_get ps (i * 3 + 2)
      in \<lparr>minX = js_min (minX b) x, maxX = js_max (maxX b) x,
          minY = js_min (minY b) y, maxY = js_max (maxY b) y,
          minZ = js_min (minZ b) z, maxZ = js_max (maxZ b) z\<rparr>)"

text \<open>The loop over \<open>i < count\<close> that finds the minima and maxima.\<close>

definition particleBounds :: "userdata \<Rightarrow> bounds" where
  "particleBounds ud =
     foldl (extendBounds (originalPositions ud)) initialBounds [0 ..< count ud]"

definition framerDistance :: "env \<Rightarrow> jsnum \<Rightarrow> jsnum \<Rightarrow> jsnum \<Rightarrow> jsnum" where
  "framerDistance e fov sizeX sizeY =
     (let screenAspect = innerWidth e / innerHeight e;
          fovRad = fov * (Fin pi / Fin 180);
          halfFovRad = fovRad / Fin 2;
          tanHalfFov = halfFovRad;
          distanceForWidth = (sizeX / Fin 2) / (tanHalfFov * screenAspect);
          distanceForHeight = (sizeY / Fin 2) / tanHalfFov
      in js_min distanceForWidth distanceForHeight)"

text \<open>
  From the size of the bounding rectangle to the value assigned to \<open>targetCameraZ\<close>; both
  branches of the function end in this code, with paddings 0.05 and 0.5.
\<close>

definition frameSize :: "env \<Rightarrow> jsnum \<Rightarrow> jsnum \<Rightarrow> jsnum \<Rightarrow> jsnum \<Rightarrow> jsnum" where
  "frameSize e fov sizeX sizeY padding =
     (if sizeX \<le> Fin 0 \<or> sizeY \<le> Fin 0 \<or> \<not> isFinite sizeX \<or> \<not> isFinite sizeY
      then Fin 5
      else
        let distance = framerDistance e fov sizeX sizeY in
        if \<not> isFinite distance \<or> distance \<le> Fin 0 \<or> Fin 1000 < distance then Fin 5
        else distance * padding)"

definition updateCameraForParticles :: "env \<Rightarrow> driver \<Rightarrow> driver" where
  "updateCameraForParticles e s =
     (case camera s of
        None \<Rightarrow> s
      | Some fov \<Rightarrow>
          (case currentParticles s of
             None \<Rightarrow> s
           | Some c \<Rightarrow>
               if isTransitioning s then s
               else
                 (case userData (meshes s c) of
                    None \<Rightarrow>
                      (case boundingSize e (meshes s c) of
                         None \<Rightarrow> s\<lparr>targetCameraZ := Fin 5\<rparr>
                       | Some box \<Rightarrow>
                           s\<lparr>targetCameraZ :=
                               frameSize e fov (fst box) (snd box) (Fin (5 / 100))\<rparr>)
                  | Some ud \<Rightarrow>
                      if count ud = 0 \<or> length (originalPositions ud) = 0
                      then s\<lparr>targetCameraZ := Fin 5\<rparr>
                      else
                        let b = particleBounds ud
                        in s\<lparr>targetCameraZ :=
                               frameSize e fov (maxX b - minX b) (maxY b - minY b)
                                 (Fin (1 / 2))\<rparr>)))"

section \<open>Transition driver\<close>

definition withPositions ::
  "mesh \<Rightarrow> userdata \<Rightarrow> jsnum list \<times> (jsnum \<times> jsnum \<times> jsnum) list \<Rightarrow> mesh" where
  "withPositions m ud st =
     m\<lparr>userData := Some (ud\<lparr>positions := fst st\<rparr>), instanceMatrix := snd st\<rparr>"

text \<open>The far starting point of a particle at \<open>(x, y)\<close>; \<open>r\<close> is the value of \<open>Math.random()\<close>.\<close>

definition farPosition :: "jsnum \<Rightarrow> jsnum \<Rightarrow> real \<Rightarrow> jsnum \<times> jsnum \<times> jsnum" where
  "farPosition x y r =
     (let distance = js_sqrt (x * x + y * y);
          scale = Fin 10 + distance * Fin 5
      in (x * scale, y * scale, (Fin r - Fin (1 / 2)) * Fin 20))"

text \<open>
  The seeding loop of \<open>transitionToNext\<close> reads \<open>x\<close> and \<open>y\<close> from the positions array it
  overwrites; the loop of \<open>loadInitialImage\<close> reads them from \<open>originalPositions\<close>.
\<close>

definition seedNext ::
  "(nat \<Rightarrow> real) \<Rightarrow> nat \<Rightarrow> userdata \<Rightarrow> (jsnum \<times> jsnum \<times> jsnum) list
     \<Rightarrow> jsnum list \<times> (jsnum \<times> jsnum \<times> jsnum) list" where
  "seedNext rnd r0 ud mats =
     forParticles (count ud)
       (\<lambda>i pos. farPosition (js_get pos (i * 3)) (js_get pos (i * 3 + 1)) (rnd (r0 + i)))
       (positions ud, mats)"

definition seedInitial ::
  "(nat \<Rightarrow> real) \<Rightarrow> nat \<Rightarrow> userdata \<Rightarrow> (jsnum \<times> jsnum \<times> jsnum) list
     \<Rightarrow> jsnum list \<times> (jsnum \<times> jsnum \<times> jsnum) list" where
  "seedInitial rnd r0 ud mats =
     forParticles (count ud)
       (\<lambda>i pos. farPosition (js_get (originalPositions ud) (i * 3))
                  (js_get (originalPositions ud) (i * 3 + 1)) (rnd (r0 + i)))
       (positions ud, mats)"

definition particleProgress :: "jsnum \<Rightarrow> jsnum \<Rightarrow> jsnum \<Rightarrow> jsnum" where
  "particleProgress elapsed particleDelay dur =
     js_min (js_max (Fin 0) (elapsed - particleDelay) / dur) (Fin 1)"

text \<open>One particle of the explode loop; it makes four \<open>Math.random()\<close> calls.\<close>

definition explodeStep ::
  "(nat \<Rightarrow> real) \<Rightarrow> nat \<Rightarrow> jsnum \<Rightarrow> jsnum \<Rightarrow> userdata \<Rightarrow> nat \<Rightarrow> jsnum list
     \<Rightarrow> jsnum \<times> jsnum \<times> jsnum" where
  "explodeStep rnd r0 elapsed dur ud i pos =
     (let particleExplodeEase =
            easeOutExponential (particleProgress elapsed (js_get (delays ud) i) dur);
          x = js_get (originalPositions ud) (i * 3);
          y = js_get (originalPositions ud) (i * 3 + 1);
          angle = js_atan2 y x;
          force = explodeForce * (Fin 1 + Fin (rnd (r0 + 4 * i)) * Fin (1 / 2));
          vx = (js_cos angle * force + (Fin (rnd (r0 + 4 * i + 1)) - Fin (1 / 2)) * Fin (1 / 2))
                 * particleExplodeEase * Fin (1 / 10);
          vy = (js_sin angle * force + (Fin (rnd (r0 + 4 * i + 2)) - Fin (1 / 2)) * Fin (1 / 2))
                 * particleExplodeEase * Fin (1 / 10);
          vz = (Fin (rnd (r0 + 4 * i + 3)) - Fin (1 / 2)) * explodeForce
                 * particleExplodeEase * Fin (1 / 10)
      in (js_get pos (i * 3) + vx, js_get pos (i * 3 + 1) + vy, js_get pos (i * 3 + 2) + vz))"

text \<open>One coordinate, and one particle, of the implode loop.\<close>

definition implodeCoord :: "jsnum \<Rightarrow> jsnum \<Rightarrow> jsnum \<Rightarrow> jsnum" where
  "implodeCoord cur tgt particleEaseProgress =
     cur + (tgt - cur) * implodeSpeed * (Fin 1 + particleEaseProgress * Fin 10)"

definition implodeStep ::
  "jsnum \<Rightarrow> jsnum \<Rightarrow> userdata \<Rightarrow> nat \<Rightarrow> jsnum list \<Rightarrow> jsnum \<times> jsnum \<times> jsnum" where
  "implodeStep elapsed dur ud i pos =
     (let particleEaseProgress =
            easeInOutCubic (particleProgress elapsed (js_get (delays ud) i) dur)
      in (implodeCoord (js_get pos (i * 3)) (js_get (originalPositions ud) (i * 3))
            particleEaseProgress,
          implodeCoord (js_get pos (i * 3 + 1)) (js_get (originalPositions ud) (i * 3 + 1))
            particleEaseProgress,
          implodeCoord (js_get pos (i * 3 + 2)) (js_get (originalPositions ud) (i * 3 + 2))
            particleEaseProgress))"


text \<open>
  \<open>scene.add\<close> detaches an object from its parent before appending it; \<open>scene.remove\<close>
  drops it from the children.
\<close>

definition sceneAdd :: "nat \<Rightarrow> nat list \<Rightarrow> nat list" where
  "sceneAdd obj children = removeAll obj children @ [obj]"

definition sceneRemove :: "nat \<Rightarrow> nat list \<Rightarrow> nat list" where
  "sceneRemove obj children = removeAll obj children"

definition requestAnimationFrame :: "callback \<Rightarrow> driver \<Rightarrow> driver" where
  "requestAnimationFrame cb s =
     s\<lparr>animationFrameId := Some (nextHandle s),
       frameCallback := Some cb,
       nextHandle := nextHandle s + 1\<rparr>"

text \<open>
  \<open>startAutoAdvance\<close>: clear the pending timeout if \<open>autoAdvanceTimer\<close> is truthy, then set
  a new one (whose callback is \<open>transitionToNext\<close>).
\<close>

definition startAutoAdvance :: "driver \<Rightarrow> driver" where
  "startAutoAdvance s =
     (let pending =
            (case autoAdvanceTimer s of
               None \<Rightarrow> timeouts s
             | Some t \<Rightarrow> if t = 0 then timeouts s else removeAll t (timeouts s))
      in s\<lparr>timeouts := pending @ [nextHandle s],
           autoAdvanceTimer := Some (nextHandle s),
           nextHandle := nextHandle s + 1\<rparr>)"

text \<open>
  What a frame does to the outgoing set (the explode loop, then the fade out) and to the
  incoming set (the implode loop, then the fade in). \<open>ud\<close> is the \<open>userData\<close> of the mesh.
\<close>

definition explodeMesh ::
  "(nat \<Rightarrow> real) \<Rightarrow> nat \<Rightarrow> jsnum \<Rightarrow> jsnum \<Rightarrow> jsnum \<Rightarrow> userdata \<Rightarrow> mesh \<Rightarrow> mesh" where
  "explodeMesh rnd r0 elapsed dur easeProgress ud m =
     (withPositions m ud
        (forParticles (count ud) (explodeStep rnd r0 elapsed dur ud)
           (positions ud, instanceMatrix m)))
     \<lparr>opacity := Fin (9 / 10) * (Fin 1 - easeProgress)\<rparr>"

definition implodeMesh :: "jsnum \<Rightarrow> jsnum \<Rightarrow> jsnum \<Rightarrow> userdata \<Rightarrow> mesh \<Rightarrow> mesh" where
  "implodeMesh elapsed dur easeProgress ud m =
     (withPositions m ud
        (forParticles (count ud) (implodeStep elapsed dur ud)
           (positions ud, instanceMatrix m)))
     \<lparr>opacity := Fin (9 / 10) * easeProgress\<rparr>"

text \<open>
  The two halves of a frame of \<open>animateTransition\<close>. \<open>None\<close> is the early return taken
  when the set has no \<open>userData\<close>.
\<close>

definition explodeCurrent :: "env \<Rightarrow> session \<Rightarrow> jsnum \<Rightarrow> jsnum \<Rightarrow> driver \<Rightarrow> driver option" where
  "explodeCurrent e sess elapsed easeProgress s =
     (case currentParticles s of
        None \<Rightarrow> Some s
      | Some c \<Rightarrow>
          (case userData (meshes s c) of
             None \<Rightarrow> None
           | Some ud \<Rightarrow>
               Some (s\<lparr>meshes := (meshes s)
                          (c := explodeMesh (mathRandom e) (randomUsed s) elapsed
                                  (duration sess) easeProgress ud (meshes s c)),
                        randomUsed := randomUsed s + 4 * count ud\<rparr>)))"

definition implodeNext :: "session \<Rightarrow> jsnum \<Rightarrow> jsnum \<Rightarrow> driver \<Rightarrow> driver option" where
  "implodeNext sess elapsed easeProgress s =
     (case nextParticles s of
        None \<Rightarrow> Some s
      | Some n \<Rightarrow>
          (case userData (meshes s n) of
             None \<Rightarrow> None
           | Some ud \<Rightarrow>
               Some (s\<lparr>meshes := (meshes s)
                          (n := implodeMesh elapsed (duration sess) easeProgress ud
                                  (meshes s n))\<rparr>)))"

text \<open>The \<open>else\<close> branch of \<open>animateTransition\<close>: the transition is complete.\<close>

definition completeTransition :: "env \<Rightarrow> props \<Rightarrow> session \<Rightarrow> driver \<Rightarrow> driver" where
  "completeTransition e p sess s =
     (let s1 = (case currentParticles s of
                  None \<Rightarrow> s
                | Some c \<Rightarrow>
                    s\<lparr>scene := sceneRemove c (scene s),
                      meshes := (meshes s)
                        (c := (meshes s c)
                           \<lparr>geometryDisposed := geometryDisposed (meshes s c) + 1,
                            materialDisposed := materialDisposed (meshes s c) + 1\<rparr>)\<rparr>);
          s2 = s1\<lparr>currentParticles := nextParticles s1,
                  nextParticles := None,
                  currentImageIndex := nextIndex sess,
                  isTransitioning := False\<rparr>;
          s3 = updateCameraForParticles e s2
      in if autoAdvance p then startAutoAdvance s3 else s3)"

text \<open>
  One call of \<open>animateTransition\<close>; \<open>now\<close> is the value of \<open>Date.now()\<close>. The callback that
  was waiting for this frame has fired.
\<close>

definition animateTransition :: "env \<Rightarrow> props \<Rightarrow> session \<Rightarrow> int \<Rightarrow> driver \<Rightarrow> driver" where
  "animateTransition e p sess now s =
     (let s0 = s\<lparr>frameCallback := None\<rparr>;
          elapsed = Fin (of_int (now - startTime sess));
          baseProgress = js_min (elapsed / duration sess) (Fin 1);
          easeProgress = easeInOutCubic baseProgress
      in case explodeCurrent e sess elapsed easeProgress s0 of
           None \<Rightarrow> s0\<lparr>isTransitioning := False\<rparr>
         | Some s1 \<Rightarrow>
             (case implodeNext sess elapsed easeProgress s1 of
                None \<Rightarrow> s1\<lparr>isTransitioning := False\<rparr>
              | Some s2 \<Rightarrow>
                  if baseProgress < Fin 1
                  then requestAnimationFrame (TransitionFrame sess) s2
                  else completeTransition e p sess s2))"

text \<open>
  \<open>transitionToNext\<close>, with the \<open>await\<close> taken as one step. \<open>tStart\<close> is the value of
  \<open>Date.now()\<close> stored in \<open>startTime\<close>, \<open>tFrame\<close> the value read by the first call of
  \<open>animateTransition\<close>. An image URL is falsy when it is the empty string.
\<close>

definition transitionToNext :: "env \<Rightarrow> props \<Rightarrow> int \<Rightarrow> int \<Rightarrow> driver \<Rightarrow> driver" where
  "transitionToNext e p tStart tFrame s =
     (if isTransitioning s \<or> length (images p) = 0 then s
      else
        let s1 = s\<lparr>isTransitioning := True\<rparr>;
            nextIdx = (currentImageIndex s1 + 1) mod length (images p);
            nextImageUrl = images p ! nextIdx
        in if nextImageUrl = [] then s1\<lparr>isTransitioning := False\<rparr>
           else
             (case imageToParticles e p nextImageUrl s1 of
                (Inl err, s2) \<Rightarrow> s2\<lparr>errorLog := errorLog s2 + 1, isTransitioning := False\<rparr>
              | (Inr n, s2) \<Rightarrow>
                  let s3 = s2\<lparr>nextParticles := Some n\<rparr> in
                  (case userData (meshes s3 n) of
                     None \<Rightarrow> s3\<lparr>isTransitioning := False\<rparr>
                   | Some ud \<Rightarrow>
                       let st = seedNext (mathRandom e) (randomUsed s3) ud
                                  (instanceMatrix (meshes s3 n));
                           s4 = s3\<lparr>meshes := (meshes s3)(n := withPositions (meshes s3 n) ud st),
                                   randomUsed := randomUsed s3 + count ud\<rparr>;
                           s5 = s4\<lparr>scene := sceneAdd n (scene s4)\<rparr>;
                           sess = \<lparr>startTime = tStart, duration = transitionDuration p,
                                   nextIndex = nextIdx\<rparr>
                       in animateTransition e p sess tFrame s5)))"

text \<open>One call of \<open>animateInitial\<close>, the frame function of \<open>loadInitialImage\<close>.\<close>

definition animateInitial :: "props \<Rightarrow> int \<Rightarrow> jsnum \<Rightarrow> int \<Rightarrow> driver \<Rightarrow> driver" where
  "animateInitial p start dur now s =
     (let s0 = s\<lparr>frameCallback := None\<rparr>;
          elapsed = Fin (of_int (now - start));
          progress = js_min (elapsed / dur) (Fin 1);
          easeProgress = easeInOutCubic progress;
          moved =
            (case currentParticles s0 of
               None \<Rightarrow> Some s0
             | Some c \<Rightarrow>
                 (case userData (meshes s0 c) of
                    None \<Rightarrow> None
                  | Some ud \<Rightarrow>
                      Some (s0\<lparr>meshes := (meshes s0)
                                 (c := implodeMesh elapsed dur easeProgress ud
                                         (meshes s0 c))\<rparr>)))
      in case moved of
           None \<Rightarrow> s0
         | Some s1 \<Rightarrow>
             if progress < Fin 1 then requestAnimationFrame (InitialFrame start dur) s1
             else if autoAdvance p then startAutoAdvance s1
             else s1)"

definition loadInitialImage :: "env \<Rightarrow> props \<Rightarrow> int \<Rightarrow> int \<Rightarrow> driver \<Rightarrow> driver" where
  "loadInitialImage e p tStart tFrame s =
     (if length (images p) = 0 then s
      else if length (images p) \<le> currentImageIndex s then s
      else
        let imageUrl = images p ! currentImageIndex s in
        if imageUrl = [] then s
        else
          (case imageToParticles e p imageUrl s of
             (Inl err, s1) \<Rightarrow> s1\<lparr>errorLog := errorLog s1 + 1\<rparr>
           | (Inr c, s1) \<Rightarrow>
               let s2 = s1\<lparr>currentParticles := Some c\<rparr>;
                   s3 = (case userData (meshes s2 c) of
                           None \<Rightarrow> s2
                         | Some ud \<Rightarrow>
                             let st = seedInitial (mathRandom e) (randomUsed s2) ud
                                        (instanceMatrix (meshes s2 c))
                             in s2\<lparr>meshes :=
                                     (meshes s2)(c := withPositions (meshes s2 c) ud st),
                                   randomUsed := randomUsed s2 + count ud\<rparr>);
                   s4 = s3\<lparr>scene := sceneAdd c (scene s3)\<rparr>;
                   s5 = updateCameraForParticles e s4
               in animateInitial p tStart (transitionDuration p) tFrame s5))"


section \<open>The pixels that become particles\<close>

text \<open>
  The scan keeps the pixel \<open>(x, y)\<close> when its alpha byte lies inside the buffer and is
  at least 10. \<open>survivors\<close> lists the pixels kept, in scan order; \<open>pixelPosition\<close> is the
  triple the scan appends to \<open>positions\<close> and \<open>originalPositions\<close> for one of them.
\<close>

definition survives :: "nat list \<Rightarrow> nat \<Rightarrow> nat \<Rightarrow> nat \<Rightarrow> bool" where
  "survives pixels w y x =
     ((y * w + x) * 4 + 3 < length pixels \<and> 10 \<le> pixels ! ((y * w + x) * 4 + 3))"

definition survivors :: "nat list \<Rightarrow> nat \<Rightarrow> nat \<Rightarrow> jsnum \<Rightarrow> (nat \<times> nat) list" where
  "survivors pixels w h step =
     concat (map (\<lambda>y. map (\<lambda>x. (x, y)) (filter (survives pixels w y) (scanCoords step w)))
               (scanCoords step h))"

definition pixelPosition :: "nat \<Rightarrow> nat \<Rightarrow> nat \<times> nat \<Rightarrow> jsnum list" where
  "pixelPosition w h q =
     [Fin (real (fst q)) / Fin (real w) * Fin 2 - Fin 1,
      Fin 1 - Fin (real (snd q)) / Fin (real h) * Fin 2,
      Fin 0]"

section \<open>The camera's view\<close>

text \<open>
  \<open>animate\<close> puts the camera at \<open>(sin(now * 0.0001) * 2 + currentRotationY * 2,
  cos(now * 0.0001) * 2 + currentRotationX * 2, currentCameraZ)\<close> and turns it to the
  origin with \<open>camera.lookAt(0, 0, 0)\<close>; \<open>initScene\<close> creates it as
  \<open>PerspectiveCamera(5, aspect, 0.1, 1000)\<close>. three.js itself is not part of the
  repository: \<open>inFrustum\<close> is the usual viewing frustum of a perspective camera at \<open>eye\<close>
  that looks at the origin with the up vector \<open>(0, 1, 0)\<close> (vertical field of view in
  degrees, aspect ratio, near and far plane), for an eye off the y axis.
\<close>

type_synonym vec3 = "real \<times> real \<times> real"

definition cameraPosition :: "int \<Rightarrow> real \<Rightarrow> real \<Rightarrow> real \<Rightarrow> vec3" where
  "cameraPosition now currentRotationX currentRotationY currentCameraZ =
     (sin (of_int now * (1 / 10000)) * 2 + currentRotationY * 2,
      cos (of_int now * (1 / 10000)) * 2 + currentRotationX * 2,
      currentCameraZ)"

fun sub3 :: "vec3 \<Rightarrow> vec3 \<Rightarrow> vec3" where
  "sub3 (a1, a2, a3) (b1, b2, b3) = (a1 - b1, a2 - b2, a3 - b3)"

fun dot3 :: "vec3 \<Rightarrow> vec3 \<Rightarrow> real" where
  "dot3 (a1, a2, a3) (b1, b2, b3) = a1 * b1 + a2 * b2 + a3 * b3"

fun cross3 :: "vec3 \<Rightarrow> vec3 \<Rightarrow> vec3" where
  "cross3 (a1, a2, a3) (b1, b2, b3) = (a2 * b3 - a3 * b2, a3 * b1 - a1 * b3, a1 * b2 - a2 * b1)"

definition norm3 :: "vec3 \<Rightarrow> real" where
  "norm3 a = sqrt (dot3 a a)"

definition inFrustum :: "vec3 \<Rightarrow> real \<Rightarrow> real \<Rightarrow> real \<Rightarrow> real \<Rightarrow> vec3 \<Rightarrow> bool" where
  "inFrustum eye fov aspect near far q =
     (let forward = sub3 (0, 0, 0) eye;
          right = cross3 forward (0, 1, 0);
          up = cross3 right forward;
          v = sub3 q eye;
          depth = dot3 v forward / norm3 forward;
          t = tan (fov * pi / 180 / 2)
      in near \<le> depth \<and> depth \<le> far
         \<and> \<bar>dot3 v up / norm3 up\<bar> \<le> depth * t
         \<and> \<bar>dot3 v right / norm3 right\<bar> \<le> depth * t * aspect)"

section \<open>Double arithmetic (IEEE 754 binary64) for the implode step\<close>

text \<open>
  The arithmetic operators of the source work on doubles: each one returns the exact result
  rounded to the nearest double, ties to the even significand, and an infinity once the
  rounded magnitude reaches \<open>2 ^ 1024\<close>. A double is an integer multiple of \<open>2 ^ e\<close>
  with a significand below \<open>2 ^ 53\<close>; for a real \<open>x\<close> the exponent of its last
  place is \<open>expo64 x\<close>, which stops at \<open>- 1074\<close> (the subnormal numbers).
  \<open>round64\<close> rounds with an unbounded exponent range, \<open>fl64\<close> adds the overflow and
  passes the non-finite values through. The sign of zero is not modelled.
\<close>

definition roundEven :: "real \<Rightarrow> int" where
  "roundEven y =
     (if y - of_int \<lfloor>y\<rfloor> < 1 / 2 then \<lfloor>y\<rfloor>
      else if 1 / 2 < y - of_int \<lfloor>y\<rfloor> then \<lfloor>y\<rfloor> + 1
      else if even \<lfloor>y\<rfloor> then \<lfloor>y\<rfloor>
      else \<lfloor>y\<rfloor> + 1)"

definition pow2 :: "int \<Rightarrow> real" where
  "pow2 e = (if 0 \<le> e then 2 ^ nat e else 1 / 2 ^ nat (- e))"

definition expo64 :: "real \<Rightarrow> int" where
  "expo64 x = max (\<lfloor>log 2 \<bar>x\<bar>\<rfloor> - 52) (- 1074)"

definition round64 :: "real \<Rightarrow> real" where
  "round64 x =
     (if x = 0 then 0
      else of_int (roundEven (x / pow2 (expo64 x))) * pow2 (expo64 x))"






section \<open>Example values\<close>

text \<open>
  The component's variables after \<open>initScene\<close> (a camera with a field of view of 5
  degrees, \<open>targetCameraZ = 5\<close>, no particle sets), a browser in which every image loads
  as an opaque white canvas and \<open>Math.random()\<close> always yields 0.5, a browser in which
  every image fails to load, and two sets of props.
\<close>

definition blankMesh :: mesh where
  "blankMesh =
     \<lparr>userData = None, instanceMatrix = [], opacity = Fin 1,
      geometryDisposed = 0, materialDisposed = 0\<rparr>"

definition initialDriver :: driver where
  "initialDriver =
     \<lparr>meshes = (\<lambda>i. blankMesh), nextMesh = 0, scene = [], camera = Some (Fin 5),
      currentParticles = None, nextParticles = None, currentImageIndex = 0,
      isTransitioning = False, animationFrameId = None, autoAdvanceTimer = None,
      targetCameraZ = Fin 5, frameCallback = None, timeouts = [], nextHandle = 1,
      randomUsed = 0, loadLog = [], errorLog = 0\<rparr>"

definition whiteEnv :: env where
  "whiteEnv =
     \<lparr>loadImage = (\<lambda>u. Some \<lparr>imgComplete = True, naturalWidth = 4, naturalHeight = 4\<rparr>),
      context2d = True,
      rasterize = (\<lambda>u box. replicate (1600 * 1600 * 4) 255),
      mathRandom = (\<lambda>i. 1 / 2),
      boundingSize = (\<lambda>m. None),
      innerWidth = Fin 1600,
      innerHeight = Fin 900\<rparr>"

definition brokenEnv :: env where
  "brokenEnv = whiteEnv\<lparr>loadImage := (\<lambda>u. None)\<rparr>"

definition defaultProps :: props where
  "defaultProps =
     \<lparr>images = [''a.jpg'', ''b.jpg''], particleDensity = Fin (1 / 10),
      transitionDuration = Fin 2000, autoAdvance = False, autoAdvanceInterval = Fin 3000\<rparr>"

definition sparseProps :: props where
  "sparseProps = defaultProps\<lparr>particleDensity := Fin (1 / 800)\<rparr>"

text \<open>
  A set of one particle that rests at \<open>(1, 1, 0)\<close> and is at \<open>(10, 10, z)\<close>, a state in
  the middle of a transition from set 0 to set 1, and the closure of that transition.
\<close>

definition exampleData :: "real \<Rightarrow> userdata" where
  "exampleData z =
     \<lparr>positions = [Fin 10, Fin 10, Fin z],
      originalPositions = [Fin 1, Fin 1, Fin 0],
      velocities = [Fin (- 100), Fin (- 10), Fin 0],
      colors = [Fin 1, Fin 1, Fin 1],
      delays = [Fin 1000],
      count = 1\<rparr>"

definition exampleSet :: "real \<Rightarrow> mesh" where
  "exampleSet z =
     \<lparr>userData = Some (exampleData z),
      instanceMatrix = [(Fin 10, Fin 10, Fin z)],
      opacity = Fin (9 / 10),
      geometryDisposed = 0,
      materialDisposed = 0\<rparr>"

definition midTransition :: driver where
  "midTransition =
     initialDriver\<lparr>meshes := (\<lambda>i. if i = 0 then exampleSet 0 else exampleSet 5),
                   nextMesh := 2, scene := [0, 1], currentParticles := Some 0,
                   nextParticles := Some 1, isTransitioning := True\<rparr>"

definition exampleSession :: session where
  "exampleSession = \<lparr>startTime = 0, duration = Fin 2000, nextIndex = 1\<rparr>"

text \<open>
  The same state after a click on the title has zoomed the camera out
  (\<open>targetCameraZ = currentCameraZ * 3\<close>).
\<close>

definition zoomedOut :: driver where
  "zoomedOut = midTransition\<lparr>targetCameraZ := Fin 15\<rparr>"

section \<open>Arithmetic on finite numbers\<close>

lemma fin_minus [simp]: "Fin a - Fin b = Fin (a - b)"
  by (simp add: minus_jsnum_def)

lemma fin_le [simp]: "(Fin a \<le> Fin b) = (a \<le> b)"
  by (auto simp: less_eq_jsnum_def)

lemma js_min_fin [simp]: "js_min (Fin a) (Fin b) = Fin (min a b)"
  by (simp add: js_min_def min_def)

lemma js_max_fin [simp]: "js_max (Fin a) (Fin b) = Fin (max a b)"
  by (simp add: js_max_def max_def)

lemma particleProgress_fin:
  assumes "0 < d"
  shows "particleProgress (Fin el) (Fin dl) (Fin d) = Fin (min (max 0 (el - dl) / d) 1)"
  using assms by (simp add: particleProgress_def)

lemma easeInOutCubic_fin:
  "easeInOutCubic (Fin t) = Fin (if t < 1 / 2 then 4 * t ^ 3 else 1 - (- 2 * t + 2) ^ 3 / 2)"
  by (simp add: easeInOutCubic_def power3_eq_cube algebra_simps)

lemma cubic_bounds:
  fixes t :: real
  assumes "0 \<le> t" "t \<le> 1"
  defines "c \<equiv> (if t < 1 / 2 then 4 * t ^ 3 else 1 - (- 2 * t + 2) ^ 3 / 2)"
  shows "0 \<le> c \<and> c \<le> 1"
proof (cases "t < 1 / 2")
  case True
  have "t ^ 3 \<le> (1 / 2) ^ 3" using assms(1) True by (intro power_mono) auto
  moreover have "0 \<le> t ^ 3" using assms(1) by simp
  ultimately show ?thesis using True by (simp add: c_def power3_eq_cube)
next
  case False
  let ?u = "- 2 * t + 2"
  have u: "0 \<le> ?u" "?u \<le> 1" using assms(2) False by auto
  have "?u ^ 3 \<le> 1 ^ 3" using u by (intro power_mono) auto
  moreover have "0 \<le> ?u ^ 3" using u(1) by (rule zero_le_power)
  ultimately show ?thesis using False by (simp add: c_def)
qed

lemma implodeCoord_fin:
  "implodeCoord (Fin pos) (Fin tgt) (Fin ev) =
     Fin (pos + (tgt - pos) * (2 / 100) * (1 + ev * 10))"
  by (simp add: implodeCoord_def implodeSpeed_def)

section \<open>The reentrancy guard\<close>

text \<open>
  C1. A call of \<open>transitionToNext\<close> while a transition is in flight, or with an empty
  image list, returns at once: the whole component state is as before, so no animation
  callback is registered and neither \<open>currentParticles\<close>, \<open>nextParticles\<close>,
  \<open>currentImageIndex\<close> nor the scene change.
\<close>

theorem transitionToNext_busy_noop:
  "isTransitioning s \<or> images p = [] \<Longrightarrow> transitionToNext e p tStart tFrame s = s"
  by (auto simp: transitionToNext_def)

theorem transitionToNext_busy_noop_witness:
  "(isTransitioning (initialDriver\<lparr>isTransitioning := True\<rparr>) \<or> images defaultProps = [])
   \<and> transitionToNext whiteEnv defaultProps 0 0 (initialDriver\<lparr>isTransitioning := True\<rparr>)
       = initialDriver\<lparr>isTransitioning := True\<rparr>"
  using transitionToNext_busy_noop
          [of "initialDriver\<lparr>isTransitioning := True\<rparr>" defaultProps whiteEnv 0 0]
  by simp

section \<open>The implode step\<close>


section \<open>The sampler\<close>

lemma visitPixel_cases:
  "visitPixel rnd px w h y x acc =
     (if survives px w y x
      then acc\<lparr>bPositions := bPositions acc @ pixelPosition w h (x, y),
               bOriginalPositions := bOriginalPositions acc @ pixelPosition w h (x, y),
               bColors := bColors acc @
                  [Fin (real (px ! ((y * w + x) * 4))) / Fin 255,
                   Fin (real (px ! ((y * w + x) * 4 + 1))) / Fin 255,
                   Fin (real (px ! ((y * w + x) * 4 + 2))) / Fin 255],
               bVelocities := bVelocities acc @
                  [- (pixelPosition w h (x, y) ! 0) * Fin 100,
                   - (pixelPosition w h (x, y) ! 1) * Fin 10,
                   (Fin (rnd (bRandom acc)) - Fin (1 / 2)) * Fin 2],
               bRandom := bRandom acc + 1\<rparr>
      else acc)"
  by (auto simp: visitPixel_def survives_def pixelPosition_def Let_def not_less not_le)

text \<open>What one row of the scan adds.\<close>

lemma row_positions:
  "bPositions (foldl (\<lambda>acc x. visitPixel rnd px w h y x acc) acc xs) =
     bPositions acc @ concat (map (\<lambda>x. pixelPosition w h (x, y)) (filter (survives px w y) xs))"
  by (induction xs arbitrary: acc) (simp_all add: visitPixel_cases)

lemma row_originals:
  "bOriginalPositions (foldl (\<lambda>acc x. visitPixel rnd px w h y x acc) acc xs) =
     bOriginalPositions acc @
       concat (map (\<lambda>x. pixelPosition w h (x, y)) (filter (survives px w y) xs))"
  by (induction xs arbitrary: acc) (simp_all add: visitPixel_cases)

lemma row_colors:
  "length (bColors (foldl (\<lambda>acc x. visitPixel rnd px w h y x acc) acc xs)) =
     length (bColors acc) + 3 * length (filter (survives px w y) xs)"
  by (induction xs arbitrary: acc) (simp_all add: visitPixel_cases)

lemma row_velocities:
  "length (bVelocities (foldl (\<lambda>acc x. visitPixel rnd px w h y x acc) acc xs)) =
     length (bVelocities acc) + 3 * length (filter (survives px w y) xs)"
  by (induction xs arbitrary: acc) (simp_all add: visitPixel_cases)

lemma row_random:
  "bRandom (foldl (\<lambda>acc x. visitPixel rnd px w h y x acc) acc xs) =
     bRandom acc + length (filter (survives px w y) xs)"
  by (induction xs arbitrary: acc) (simp_all add: visitPixel_cases)

lemma rows_positions:
  "bPositions (foldl (\<lambda>acc y. foldl (\<lambda>acc x. visitPixel rnd px w h y x acc) acc xs) acc ys) =
     bPositions acc @ concat (map (pixelPosition w h)
        (concat (map (\<lambda>y. map (\<lambda>x. (x, y)) (filter (survives px w y) xs)) ys)))"
  by (induction ys arbitrary: acc) (simp_all add: row_positions comp_def)

lemma rows_originals:
  "bOriginalPositions
     (foldl (\<lambda>acc y. foldl (\<lambda>acc x. visitPixel rnd px w h y x acc) acc xs) acc ys) =
     bOriginalPositions acc @ concat (map (pixelPosition w h)
        (concat (map (\<lambda>y. map (\<lambda>x. (x, y)) (filter (survives px w y) xs)) ys)))"
  by (induction ys arbitrary: acc) (simp_all add: row_originals comp_def)

lemma rows_colors:
  "length (bColors
     (foldl (\<lambda>acc y. foldl (\<lambda>acc x. visitPixel rnd px w h y x acc) acc xs) acc ys)) =
     length (bColors acc) + 3 * length
        (concat (map (\<lambda>y. map (\<lambda>x. (x, y)) (filter (survives px w y) xs)) ys))"
  by (induction ys arbitrary: acc) (simp_all add: row_colors)

lemma rows_velocities:
  "length (bVelocities
     (foldl (\<lambda>acc y. foldl (\<lambda>acc x. visitPixel rnd px w h y x acc) acc xs) acc ys)) =
     length (bVelocities acc) + 3 * length
        (concat (map (\<lambda>y. map (\<lambda>x. (x, y)) (filter (survives px w y) xs)) ys))"
  by (induction ys arbitrary: acc) (simp_all add: row_velocities)

lemma rows_random:
  "bRandom (foldl (\<lambda>acc y. foldl (\<lambda>acc x. visitPixel rnd px w h y x acc) acc xs) acc ys) =
     bRandom acc + length
        (concat (map (\<lambda>y. map (\<lambda>x. (x, y)) (filter (survives px w y) xs)) ys))"
  by (induction ys arbitrary: acc) (simp_all add: row_random)

lemma length_concat_triples:
  assumes "\<And>x. length (f x) = 3"
  shows "length (concat (map f xs)) = 3 * length xs"
  by (induction xs) (simp_all add: assms)

lemma nth_concat_triples:
  assumes "\<And>x. length (f x) = 3" "i < length xs" "j < 3"
  shows "concat (map f xs) ! (i * 3 + j) = f (xs ! i) ! j"
  using assms(2)
proof (induction xs arbitrary: i)
  case Nil
  then show ?case by simp
next
  case (Cons a xs)
  show ?case
  proof (cases i)
    case 0
    then show ?thesis using assms(1,3) by (simp add: nth_append)
  next
    case (Suc k)
    then have "k < length xs" using Cons.prems by simp
    then have "concat (map f xs) ! (k * 3 + j) = f (xs ! k) ! j" by (rule Cons.IH)
    then show ?thesis using Suc assms(1) by (simp add: nth_append)
  qed
qed

lemma scanFrom_bound: "v \<in> set (scanFrom step limit v0) \<Longrightarrow> v < limit"
proof (induction step limit v0 rule: scanFrom.induct)
  case (1 step limit v0)
  then show ?case
    by (subst (asm) (2) scanFrom.simps) (auto split: if_splits)
qed

lemma scanCoords_bound: "v \<in> set (scanCoords step limit) \<Longrightarrow> v < limit"
  by (cases step) (auto dest: scanFrom_bound split: if_splits)

lemma survivors_bound:
  assumes "q \<in> set (survivors px w h step)"
  shows "fst q < w \<and> snd q < h \<and> survives px w (snd q) (fst q)"
  using assms by (auto simp: survivors_def dest: scanCoords_bound)

lemma length_pixelPosition [simp]: "length (pixelPosition w h q) = 3"
  by (simp add: pixelPosition_def)

lemma scanPixels_positions:
  "bPositions (scanPixels rnd px w h step acc) =
     bPositions acc @ concat (map (pixelPosition w h) (survivors px w h step))"
  by (simp add: scanPixels_def survivors_def rows_positions)

lemma scanPixels_originals:
  "bOriginalPositions (scanPixels rnd px w h step acc) =
     bOriginalPositions acc @ concat (map (pixelPosition w h) (survivors px w h step))"
  by (simp add: scanPixels_def survivors_def rows_originals)

lemma scanPixels_colors:
  "length (bColors (scanPixels rnd px w h step acc)) =
     length (bColors acc) + 3 * length (survivors px w h step)"
  by (simp add: scanPixels_def survivors_def rows_colors)

lemma scanPixels_velocities:
  "length (bVelocities (scanPixels rnd px w h step acc)) =
     length (bVelocities acc) + 3 * length (survivors px w h step)"
  by (simp add: scanPixels_def survivors_def rows_velocities)

lemma scanPixels_random:
  "bRandom (scanPixels rnd px w h step acc) = bRandom acc + length (survivors px w h step)"
  by (simp add: scanPixels_def survivors_def rows_random)

text \<open>The mesh the sampler builds, in terms of the surviving pixels.\<close>

lemma buildMesh_userData:
  "\<exists>ud. userData (fst (buildMesh rnd r0 px w h step)) = Some ud
      \<and> positions ud = concat (map (pixelPosition w h) (survivors px w h step))
      \<and> originalPositions ud = concat (map (pixelPosition w h) (survivors px w h step))
      \<and> count ud = length (survivors px w h step)
      \<and> length (colors ud) = 3 * length (survivors px w h step)
      \<and> length (velocities ud) = 3 * length (survivors px w h step)
      \<and> delays ud = map (\<lambda>i. Fin (rnd (r0 + length (survivors px w h step) + i) * 2000))
                       [0 ..< length (survivors px w h step)]"
  by (simp add: buildMesh_def Let_def scanPixels_positions scanPixels_originals
      scanPixels_colors scanPixels_velocities scanPixels_random length_concat_triples)

lemma buildMesh_rest:
  "length (instanceMatrix (fst (buildMesh rnd r0 px w h step))) = length (survivors px w h step)
   \<and> opacity (fst (buildMesh rnd r0 px w h step)) = Fin (9 / 10)
   \<and> geometryDisposed (fst (buildMesh rnd r0 px w h step)) = 0
   \<and> materialDisposed (fst (buildMesh rnd r0 px w h step)) = 0
   \<and> snd (buildMesh rnd r0 px w h step) = 2 * length (survivors px w h step)"
  by (simp add: buildMesh_def Let_def scanPixels_positions scanPixels_random
      length_concat_triples)

lemma imageToParticles_resolves:
  assumes "loadImage e url = Some img" "imgComplete img" "0 < naturalWidth img"
    "0 < naturalHeight img" "context2d e"
  shows "imageToParticles e p url s =
     (Inr (nextMesh s),
      s\<lparr>loadLog := loadLog s @ [url],
        meshes := (meshes s)(nextMesh s :=
           fst (buildMesh (mathRandom e) (randomUsed s)
                  (rasterize e url (letterbox (naturalWidth img) (naturalHeight img)))
                  canvasSize canvasSize (sampleStep (particleDensity p)))),
        nextMesh := nextMesh s + 1,
        randomUsed := randomUsed s +
           snd (buildMesh (mathRandom e) (randomUsed s)
                  (rasterize e url (letterbox (naturalWidth img) (naturalHeight img)))
                  canvasSize canvasSize (sampleStep (particleDensity p)))\<rparr>)"
  using assms by (simp add: imageToParticles_def Let_def)

lemma imageToParticles_rejects:
  assumes "fst (imageToParticles e p url s) = Inl err"
  shows "snd (imageToParticles e p url s) = s\<lparr>loadLog := loadLog s @ [url]\<rparr>"
  using assms by (auto simp: imageToParticles_def Let_def split: option.splits if_splits)

lemma pixelPosition_fin:
  assumes "0 < w" "0 < h"
  shows "pixelPosition w h (px, py) =
     [Fin (real px / real w * 2 - 1), Fin (1 - real py / real h * 2), Fin 0]"
  using assms by (simp add: pixelPosition_def)

lemma unit_to_signed:
  fixes r :: real
  assumes "0 \<le> r" "r \<le> 1"
  shows "- 1 \<le> r * 2 - 1" "r * 2 - 1 \<le> 1" "- 1 \<le> 1 - r * 2" "1 - r * 2 \<le> 1"
  using assms by simp_all

text \<open>
  C4. For a valid image (loaded, fully decoded, with non-zero dimensions, on a canvas that
  gives a 2d context) and any density, \<open>imageToParticles\<close> resolves with a mesh whose
  \<open>userData\<close> holds one particle per surviving sampled pixel:
  \<open>count = positions.length / 3 = originalPositions.length / 3 = colors.length / 3 =
  delays.length\<close>.
\<close>

theorem sampler_array_lengths:
  assumes "loadImage e url = Some img" "imgComplete img" "0 < naturalWidth img"
    "0 < naturalHeight img" "context2d e"
  shows "\<exists>n s' ud.
           imageToParticles e p url s = (Inr n, s')
         \<and> userData (meshes s' n) = Some ud
         \<and> count ud = length (survivors
               (rasterize e url (letterbox (naturalWidth img) (naturalHeight img)))
               canvasSize canvasSize (sampleStep (particleDensity p)))
         \<and> length (positions ud) = 3 * count ud
         \<and> length (originalPositions ud) = 3 * count ud
         \<and> length (colors ud) = 3 * count ud
         \<and> length (delays ud) = count ud"
proof -
  let ?px = "rasterize e url (letterbox (naturalWidth img) (naturalHeight img))"
  let ?b = "buildMesh (mathRandom e) (randomUsed s) ?px canvasSize canvasSize
              (sampleStep (particleDensity p))"
  obtain ud where ud: "userData (fst ?b) = Some ud"
      "positions ud = concat (map (pixelPosition canvasSize canvasSize)
          (survivors ?px canvasSize canvasSize (sampleStep (particleDensity p))))"
      "originalPositions ud = concat (map (pixelPosition canvasSize canvasSize)
          (survivors ?px canvasSize canvasSize (sampleStep (particleDensity p))))"
      "count ud = length (survivors ?px canvasSize canvasSize (sampleStep (particleDensity p)))"
      "length (colors ud) =
         3 * length (survivors ?px canvasSize canvasSize (sampleStep (particleDensity p)))"
      "delays ud = map (\<lambda>i. Fin (mathRandom e (randomUsed s +
            length (survivors ?px canvasSize canvasSize (sampleStep (particleDensity p))) + i)
            * 2000))
          [0 ..< length (survivors ?px canvasSize canvasSize (sampleStep (particleDensity p)))]"
    using buildMesh_userData [of "mathRandom e" "randomUsed s" ?px canvasSize canvasSize
        "sampleStep (particleDensity p)"] by blast
  have "userData (meshes (snd (imageToParticles e p url s)) (nextMesh s)) = Some ud"
    using ud(1) by (simp add: imageToParticles_resolves [OF assms])
  moreover have "imageToParticles e p url s = (Inr (nextMesh s), snd (imageToParticles e p url s))"
    by (simp add: imageToParticles_resolves [OF assms])
  moreover have "length (positions ud) = 3 * count ud" "length (originalPositions ud) = 3 * count ud"
    "length (colors ud) = 3 * count ud" "length (delays ud) = count ud"
    using ud by (simp_all add: length_concat_triples)
  ultimately show ?thesis using ud(4) by blast
qed

text \<open>
  C5. Particle \<open>i\<close> of the sampler's output comes from the \<open>i\<close>-th surviving pixel
  \<open>(px, py)\<close> of the canvas; its target position is
  \<open>x = px / canvasWidth * 2 - 1\<close>, \<open>y = 1 - py / canvasHeight * 2\<close>, \<open>z = 0\<close>, and \<open>x\<close>
  and \<open>y\<close> lie in [-1, 1].
\<close>

theorem sampler_target_positions:
  assumes "loadImage e url = Some img" "imgComplete img" "0 < naturalWidth img"
    "0 < naturalHeight img" "context2d e"
  shows "\<exists>n s' ud.
           imageToParticles e p url s = (Inr n, s')
         \<and> userData (meshes s' n) = Some ud
         \<and> count ud = length (survivors
               (rasterize e url (letterbox (naturalWidth img) (naturalHeight img)))
               canvasSize canvasSize (sampleStep (particleDensity p)))
         \<and> (\<forall>i < count ud. \<exists>px py.
               survivors (rasterize e url (letterbox (naturalWidth img) (naturalHeight img)))
                 canvasSize canvasSize (sampleStep (particleDensity p)) ! i = (px, py)
             \<and> px < canvasSize \<and> py < canvasSize
             \<and> originalPositions ud ! (i * 3) = Fin (real px / real canvasSize * 2 - 1)
             \<and> originalPositions ud ! (i * 3 + 1) = Fin (1 - real py / real canvasSize * 2)
             \<and> originalPositions ud ! (i * 3 + 2) = Fin 0
             \<and> - 1 \<le> real px / real canvasSize * 2 - 1
             \<and> real px / real canvasSize * 2 - 1 \<le> 1
             \<and> - 1 \<le> 1 - real py / real canvasSize * 2
             \<and> 1 - real py / real canvasSize * 2 \<le> 1)"
proof -
  let ?px = "rasterize e url (letterbox (naturalWidth img) (naturalHeight img))"
  let ?sv = "survivors ?px canvasSize canvasSize (sampleStep (particleDensity p))"
  let ?b = "buildMesh (mathRandom e) (randomUsed s) ?px canvasSize canvasSize
              (sampleStep (particleDensity p))"
  have cs: "0 < canvasSize" by (simp add: canvasSize_def)
  obtain ud where ud: "userData (fst ?b) = Some ud"
      "originalPositions ud = concat (map (pixelPosition canvasSize canvasSize) ?sv)"
      "count ud = length ?sv"
    using buildMesh_userData [of "mathRandom e" "randomUsed s" ?px canvasSize canvasSize
        "sampleStep (particleDensity p)"] by blast
  have res: "imageToParticles e p url s = (Inr (nextMesh s), snd (imageToParticles e p url s))"
    "userData (meshes (snd (imageToParticles e p url s)) (nextMesh s)) = Some ud"
    using ud(1) by (simp_all add: imageToParticles_resolves [OF assms])
  have each: "\<exists>px py. ?sv ! i = (px, py) \<and> px < canvasSize \<and> py < canvasSize
             \<and> originalPositions ud ! (i * 3) = Fin (real px / real canvasSize * 2 - 1)
             \<and> originalPositions ud ! (i * 3 + 1) = Fin (1 - real py / real canvasSize * 2)
             \<and> originalPositions ud ! (i * 3 + 2) = Fin 0
             \<and> - 1 \<le> real px / real canvasSize * 2 - 1
             \<and> real px / real canvasSize * 2 - 1 \<le> 1
             \<and> - 1 \<le> 1 - real py / real canvasSize * 2
             \<and> 1 - real py / real canvasSize * 2 \<le> 1" if i: "i < count ud" for i
  proof -
    obtain px py where q: "?sv ! i = (px, py)" by (cases "?sv ! i") auto
    have "?sv ! i \<in> set ?sv" using i ud(3) by simp
    then have b: "px < canvasSize" "py < canvasSize"
      using survivors_bound [of "?sv ! i" ?px canvasSize canvasSize] q by auto
    have n: "originalPositions ud ! (i * 3 + j) = pixelPosition canvasSize canvasSize (px, py) ! j"
      if "j < 3" for j
      using nth_concat_triples [of "pixelPosition canvasSize canvasSize" i ?sv j] i that q
      by (simp add: ud(2,3))
    have x: "originalPositions ud ! (i * 3) = Fin (real px / real canvasSize * 2 - 1)"
      using n [of 0] by (simp add: pixelPosition_fin [OF cs cs])
    have y: "originalPositions ud ! (i * 3 + 1) = Fin (1 - real py / real canvasSize * 2)"
      using n [of 1] by (simp add: pixelPosition_fin [OF cs cs])
    have z: "originalPositions ud ! (i * 3 + 2) = Fin 0"
      using n [of 2] by (simp add: pixelPosition_fin [OF cs cs])
    have fx: "0 \<le> real px / real canvasSize" "real px / real canvasSize \<le> 1"
      using b(1) cs by simp_all
    have fy: "0 \<le> real py / real canvasSize" "real py / real canvasSize \<le> 1"
      using b(2) cs by simp_all
    have bnx: "- 1 \<le> real px / real canvasSize * 2 - 1" "real px / real canvasSize * 2 - 1 \<le> 1"
      using unit_to_signed [OF fx] by blast+
    have bny: "- 1 \<le> 1 - real py / real canvasSize * 2" "1 - real py / real canvasSize * 2 \<le> 1"
      using unit_to_signed [OF fy] by blast+
    show ?thesis using q b x y z bnx bny by blast
  qed
  show ?thesis using res ud(3) each by blast
qed

lemma white_survivors:
  "survivors (rasterize whiteEnv u box) canvasSize canvasSize (sampleStep (particleDensity sparseProps))
     = [(0, 0), (800, 0), (0, 800), (800, 800)]"
  by (simp add: survivors_def whiteEnv_def sparseProps_def defaultProps_def sampleStep_def
      canvasSize_def scanFrom.simps survives_def)

theorem sampler_array_lengths_witness:
  "loadImage whiteEnv ''a.jpg'' = Some \<lparr>imgComplete = True, naturalWidth = 4, naturalHeight = 4\<rparr>
   \<and> imgComplete \<lparr>imgComplete = True, naturalWidth = 4, naturalHeight = 4\<rparr>
   \<and> 0 < naturalWidth \<lparr>imgComplete = True, naturalWidth = 4, naturalHeight = 4\<rparr>
   \<and> 0 < naturalHeight \<lparr>imgComplete = True, naturalWidth = 4, naturalHeight = 4\<rparr>
   \<and> context2d whiteEnv
   \<and> (\<exists>n s' ud.
           imageToParticles whiteEnv sparseProps ''a.jpg'' initialDriver = (Inr n, s')
         \<and> userData (meshes s' n) = Some ud
         \<and> count ud = 4
         \<and> length (positions ud) = 12
         \<and> length (originalPositions ud) = 12
         \<and> length (colors ud) = 12
         \<and> length (delays ud) = 4)"
proof -
  let ?img = "\<lparr>imgComplete = True, naturalWidth = 4, naturalHeight = 4\<rparr>"
  have h1: "loadImage whiteEnv ''a.jpg'' = Some ?img" by (simp add: whiteEnv_def)
  have h2: "imgComplete ?img" by simp
  have h3: "0 < naturalWidth ?img" by simp
  have h4: "0 < naturalHeight ?img" by simp
  have h5: "context2d whiteEnv" by (simp add: whiteEnv_def)
  obtain n s' ud where r:
      "imageToParticles whiteEnv sparseProps ''a.jpg'' initialDriver = (Inr n, s')"
      "userData (meshes s' n) = Some ud"
      "count ud = length (survivors
          (rasterize whiteEnv ''a.jpg'' (letterbox (naturalWidth ?img) (naturalHeight ?img)))
          canvasSize canvasSize (sampleStep (particleDensity sparseProps)))"
      "length (positions ud) = 3 * count ud"
      "length (originalPositions ud) = 3 * count ud"
      "length (colors ud) = 3 * count ud"
      "length (delays ud) = count ud"
    using sampler_array_lengths [OF h1 h2 h3 h4 h5, of sparseProps initialDriver] by blast
  have c: "count ud = 4" using r(3) by (simp add: white_survivors)
  have "length (positions ud) = 12" "length (originalPositions ud) = 12"
    "length (colors ud) = 12" "length (delays ud) = 4"
    using r(4-7) c by simp_all
  then show ?thesis using h1 h2 h3 h4 h5 r(1,2) c by blast
qed

theorem sampler_target_positions_witness:
  "loadImage whiteEnv ''a.jpg'' = Some \<lparr>imgComplete = True, naturalWidth = 4, naturalHeight = 4\<rparr>
   \<and> imgComplete \<lparr>imgComplete = True, naturalWidth = 4, naturalHeight = 4\<rparr>
   \<and> 0 < naturalWidth \<lparr>imgComplete = True, naturalWidth = 4, naturalHeight = 4\<rparr>
   \<and> 0 < naturalHeight \<lparr>imgComplete = True, naturalWidth = 4, naturalHeight = 4\<rparr>
   \<and> context2d whiteEnv
   \<and> (\<exists>n s' ud.
           imageToParticles whiteEnv sparseProps ''a.jpg'' initialDriver = (Inr n, s')
         \<and> userData (meshes s' n) = Some ud
         \<and> originalPositions ud ! (3 * 3) = Fin 0
         \<and> originalPositions ud ! (3 * 3 + 1) = Fin 0
         \<and> originalPositions ud ! (3 * 3 + 2) = Fin 0
         \<and> originalPositions ud ! (0 * 3) = Fin (- 1)
         \<and> originalPositions ud ! (0 * 3 + 1) = Fin 1)"
proof -
  let ?img = "\<lparr>imgComplete = True, naturalWidth = 4, naturalHeight = 4\<rparr>"
  have h1: "loadImage whiteEnv ''a.jpg'' = Some ?img" by (simp add: whiteEnv_def)
  have h2: "imgComplete ?img" by simp
  have h3: "0 < naturalWidth ?img" by simp
  have h4: "0 < naturalHeight ?img" by simp
  have h5: "context2d whiteEnv" by (simp add: whiteEnv_def)
  obtain n s' ud where r: "imageToParticles whiteEnv sparseProps ''a.jpg'' initialDriver = (Inr n, s')"
     "userData (meshes s' n) = Some ud"
     "count ud = length (survivors
          (rasterize whiteEnv ''a.jpg'' (letterbox (naturalWidth ?img) (naturalHeight ?img)))
          canvasSize canvasSize (sampleStep (particleDensity sparseProps)))"
     "\<forall>i < count ud. \<exists>px py.
               survivors (rasterize whiteEnv ''a.jpg'' (letterbox (naturalWidth ?img) (naturalHeight ?img)))
                 canvasSize canvasSize (sampleStep (particleDensity sparseProps)) ! i = (px, py)
             \<and> px < canvasSize \<and> py < canvasSize
             \<and> originalPositions ud ! (i * 3) = Fin (real px / real canvasSize * 2 - 1)
             \<and> originalPositions ud ! (i * 3 + 1) = Fin (1 - real py / real canvasSize * 2)
             \<and> originalPositions ud ! (i * 3 + 2) = Fin 0
             \<and> - 1 \<le> real px / real canvasSize * 2 - 1
             \<and> real px / real canvasSize * 2 - 1 \<le> 1
             \<and> - 1 \<le> 1 - real py / real canvasSize * 2
             \<and> 1 - real py / real canvasSize * 2 \<le> 1"
    using sampler_target_positions [OF h1 h2 h3 h4 h5, of sparseProps initialDriver] by blast
  have c: "count ud = 4" using r(3) by (simp add: white_survivors)
  have p3: "originalPositions ud ! (3 * 3) = Fin 0 \<and> originalPositions ud ! (3 * 3 + 1) = Fin 0
      \<and> originalPositions ud ! (3 * 3 + 2) = Fin 0"
    using r(4) [rule_format, of 3] c unfolding white_survivors by (simp add: canvasSize_def)
  have p0: "originalPositions ud ! (0 * 3) = Fin (- 1) \<and> originalPositions ud ! (0 * 3 + 1) = Fin 1"
    using r(4) [rule_format, of 0] c unfolding white_survivors by (simp add: canvasSize_def)
  show ?thesis using h1 h2 h3 h4 h5 r(1,2) p3 p0 by blast
qed

section \<open>Failure of the sampler during a transition\<close>

text \<open>
  C2. When sampling the next image fails, \<open>transitionToNext\<close> ends in the state it
  started in, apart from the log of the one image request and of the one
  \<open>console.error\<close>: \<open>isTransitioning\<close> is false again, \<open>currentParticles\<close>, the store of
  meshes and the scene are untouched, the image was requested once, and neither an
  animation frame nor an auto-advance timeout is scheduled.
\<close>

theorem transitionToNext_sampling_failure:
  assumes "\<not> isTransitioning s" "images p \<noteq> []"
    and "url = images p ! ((currentImageIndex s + 1) mod length (images p))"
    and "url \<noteq> []"
    and "fst (imageToParticles e p url (s\<lparr>isTransitioning := True\<rparr>)) = Inl err"
  shows "transitionToNext e p tStart tFrame s =
           s\<lparr>loadLog := loadLog s @ [url], errorLog := errorLog s + 1\<rparr>
       \<and> isTransitioning (transitionToNext e p tStart tFrame s) = False
       \<and> currentParticles (transitionToNext e p tStart tFrame s) = currentParticles s
       \<and> nextParticles (transitionToNext e p tStart tFrame s) = nextParticles s
       \<and> meshes (transitionToNext e p tStart tFrame s) = meshes s
       \<and> scene (transitionToNext e p tStart tFrame s) = scene s
       \<and> currentImageIndex (transitionToNext e p tStart tFrame s) = currentImageIndex s
       \<and> frameCallback (transitionToNext e p tStart tFrame s) = frameCallback s
       \<and> autoAdvanceTimer (transitionToNext e p tStart tFrame s) = autoAdvanceTimer s
       \<and> timeouts (transitionToNext e p tStart tFrame s) = timeouts s
       \<and> loadLog (transitionToNext e p tStart tFrame s) = loadLog s @ [url]"
proof -
  let ?s1 = "s\<lparr>isTransitioning := True\<rparr>"
  obtain r s2 where r: "imageToParticles e p url ?s1 = (r, s2)"
    by (cases "imageToParticles e p url ?s1") auto
  have r1: "r = Inl err" using assms(5) r by simp
  have s2: "s2 = ?s1\<lparr>loadLog := loadLog ?s1 @ [url]\<rparr>"
    using imageToParticles_rejects [OF assms(5)] r by simp
  have u: "images p ! (Suc (currentImageIndex s) mod length (images p)) = url"
    using assms(3) by simp
  have "transitionToNext e p tStart tFrame s =
          s2\<lparr>errorLog := errorLog s2 + 1, isTransitioning := False\<rparr>"
    using assms(1,2,4) r r1 by (simp add: transitionToNext_def Let_def u)
  then have eq: "transitionToNext e p tStart tFrame s =
           s\<lparr>loadLog := loadLog s @ [url], errorLog := errorLog s + 1\<rparr>"
    using assms(1) by (simp add: s2)
  show ?thesis using assms(1) by (simp add: eq)
qed

theorem transitionToNext_sampling_failure_witness:
  "\<not> isTransitioning initialDriver \<and> images defaultProps \<noteq> []
   \<and> ''b.jpg'' = images defaultProps !
        ((currentImageIndex initialDriver + 1) mod length (images defaultProps))
   \<and> ''b.jpg'' \<noteq> []
   \<and> fst (imageToParticles brokenEnv defaultProps ''b.jpg''
            (initialDriver\<lparr>isTransitioning := True\<rparr>)) = Inl (LoadFailed ''b.jpg'')
   \<and> transitionToNext brokenEnv defaultProps 0 0 initialDriver =
        initialDriver\<lparr>loadLog := [''b.jpg''], errorLog := 1\<rparr>"
proof -
  have h1: "\<not> isTransitioning initialDriver" by (simp add: initialDriver_def)
  have h2: "images defaultProps \<noteq> []" by (simp add: defaultProps_def)
  have h3: "''b.jpg'' = images defaultProps !
        ((currentImageIndex initialDriver + 1) mod length (images defaultProps))"
    by (simp add: defaultProps_def initialDriver_def)
  have h4: "''b.jpg'' \<noteq> []" by simp
  have h5: "fst (imageToParticles brokenEnv defaultProps ''b.jpg''
            (initialDriver\<lparr>isTransitioning := True\<rparr>)) = Inl (LoadFailed ''b.jpg'')"
    by (simp add: imageToParticles_def brokenEnv_def whiteEnv_def)
  have "transitionToNext brokenEnv defaultProps 0 0 initialDriver =
        initialDriver\<lparr>loadLog := loadLog initialDriver @ [''b.jpg''],
                      errorLog := errorLog initialDriver + 1\<rparr>"
    using transitionToNext_sampling_failure [OF h1 h2 h3 h4 h5, of 0 0] by blast
  then show ?thesis using h1 h2 h3 h4 h5 by (simp add: initialDriver_def)
qed

section \<open>The particle loops\<close>

lemma js_get_in [simp]: "i < length xs \<Longrightarrow> js_get xs i = xs ! i"
  by (simp add: js_get_def)

lemma js_set_in [simp]: "i < length xs \<Longrightarrow> js_set xs i v = xs[i := v]"
  by (simp add: js_set_def)

lemma forParticles_Suc:
  "forParticles (Suc k) body st =
     storeParticle k (body k (fst (forParticles k body st))) (forParticles k body st)"
  by (simp add: forParticles_def)

lemma forParticles_0 [simp]: "forParticles 0 body st = st"
  by (simp add: forParticles_def)

text \<open>
  The loop invariant: after \<open>k\<close> rounds the first \<open>k\<close> triples hold the points computed
  from the array as it was before the loop, and the rest of the array is as before.
\<close>

lemma forParticles_invariant:
  assumes local: "\<And>i pos pos'.
      \<lbrakk>js_get pos (i * 3) = js_get pos' (i * 3);
       js_get pos (i * 3 + 1) = js_get pos' (i * 3 + 1);
       js_get pos (i * 3 + 2) = js_get pos' (i * 3 + 2)\<rbrakk> \<Longrightarrow> body i pos = body i pos'"
    and len: "k * 3 \<le> length xs"
  shows "length (fst (forParticles k body (xs, ms))) = length xs
       \<and> length (snd (forParticles k body (xs, ms))) = length ms
       \<and> (\<forall>i < k. fst (forParticles k body (xs, ms)) ! (i * 3) = fst (body i xs)
                \<and> fst (forParticles k body (xs, ms)) ! (i * 3 + 1) = fst (snd (body i xs))
                \<and> fst (forParticles k body (xs, ms)) ! (i * 3 + 2) = snd (snd (body i xs)))
       \<and> (\<forall>j. k * 3 \<le> j \<longrightarrow> fst (forParticles k body (xs, ms)) ! j = xs ! j)"
  using len
proof (induction k)
  case 0
  then show ?case by simp
next
  case (Suc k)
  let ?R = "forParticles k body (xs, ms)"
  have k3: "k * 3 + 2 < length xs" using Suc.prems by simp
  have IH: "length (fst ?R) = length xs" "length (snd ?R) = length ms"
    "\<forall>i < k. fst ?R ! (i * 3) = fst (body i xs)
                \<and> fst ?R ! (i * 3 + 1) = fst (snd (body i xs))
                \<and> fst ?R ! (i * 3 + 2) = snd (snd (body i xs))"
    "\<forall>j. k * 3 \<le> j \<longrightarrow> fst ?R ! j = xs ! j"
    using Suc.IH Suc.prems by auto
  have same: "body k (fst ?R) = body k xs"
    using IH(1,4) k3 by (intro local) simp_all
  obtain a b c where abc: "body k xs = (a, b, c)" by (cases "body k xs") auto
  have R': "forParticles (Suc k) body (xs, ms) =
      ((fst ?R)[k * 3 := a, k * 3 + 1 := b, k * 3 + 2 := c], (snd ?R)[k := (a, b, c)])"
    using IH(1) k3 by (simp add: forParticles_Suc same abc storeParticle_def)
  have old: "fst (forParticles (Suc k) body (xs, ms)) ! (i * 3 + j) = fst ?R ! (i * 3 + j)"
    if "i < k" "j < 3" for i j
    using that by (simp add: R')
  show ?case
  proof (intro conjI allI impI)
    show "length (fst (forParticles (Suc k) body (xs, ms))) = length xs"
      using IH(1) by (simp add: R')
    show "length (snd (forParticles (Suc k) body (xs, ms))) = length ms"
      using IH(2) by (simp add: R')
  next
    fix i assume i: "i < Suc k"
    show "fst (forParticles (Suc k) body (xs, ms)) ! (i * 3) = fst (body i xs)"
    proof (cases "i = k")
      case True
      then show ?thesis using IH(1) k3 by (simp add: R' abc)
    next
      case False
      then have "i < k" using i by simp
      then show ?thesis using old [of i 0] IH(3) by simp
    qed
    show "fst (forParticles (Suc k) body (xs, ms)) ! (i * 3 + 1) = fst (snd (body i xs))"
    proof (cases "i = k")
      case True
      then show ?thesis using IH(1) k3 by (simp add: R' abc)
    next
      case False
      then have "i < k" using i by simp
      then show ?thesis using old [of i 1] IH(3) by simp
    qed
    show "fst (forParticles (Suc k) body (xs, ms)) ! (i * 3 + 2) = snd (snd (body i xs))"
    proof (cases "i = k")
      case True
      then show ?thesis using IH(1) k3 by (simp add: R' abc)
    next
      case False
      then have "i < k" using i by simp
      then show ?thesis using old [of i 2] IH(3) by simp
    qed
  next
    fix j assume "Suc k * 3 \<le> j"
    then show "fst (forParticles (Suc k) body (xs, ms)) ! j = xs ! j"
      using IH(4) by (simp add: R')
  qed
qed

section \<open>Frames of a transition\<close>

lemma updateCamera_frame: "\<exists>z. updateCameraForParticles e s = s\<lparr>targetCameraZ := z\<rparr>"
proof -
  have "updateCameraForParticles e s = s\<lparr>targetCameraZ := targetCameraZ (updateCameraForParticles e s)\<rparr>"
    by (simp add: updateCameraForParticles_def Let_def split: option.splits)
  then show ?thesis by blast
qed

text \<open>
  A frame of a running session, in which the incoming set (and the outgoing one, if
  there is one) carries its \<open>userData\<close> and the two are different objects.
\<close>

lemma frame_without_outgoing:
  assumes "nextParticles s = Some n" "userData (meshes s n) = Some ud"
    and "currentParticles s = None"
  shows "animateTransition e p sess now s =
     (let elapsed = Fin (of_int (now - startTime sess));
          baseProgress = js_min (elapsed / duration sess) (Fin 1);
          s2 = s\<lparr>frameCallback := None,
                 meshes := (meshes s)
                   (n := implodeMesh elapsed (duration sess) (easeInOutCubic baseProgress) ud
                           (meshes s n))\<rparr>
      in if baseProgress < Fin 1 then requestAnimationFrame (TransitionFrame sess) s2
         else completeTransition e p sess s2)"
  using assms
  by (simp add: animateTransition_def explodeCurrent_def implodeNext_def Let_def)

lemma frame_with_outgoing:
  assumes "nextParticles s = Some n" "userData (meshes s n) = Some ud"
    and "currentParticles s = Some c" "c \<noteq> n" "userData (meshes s c) = Some udc"
  shows "animateTransition e p sess now s =
     (let elapsed = Fin (of_int (now - startTime sess));
          baseProgress = js_min (elapsed / duration sess) (Fin 1);
          s2 = s\<lparr>frameCallback := None,
                 randomUsed := randomUsed s + 4 * count udc,
                 meshes := (meshes s)
                   (c := explodeMesh (mathRandom e) (randomUsed s) elapsed (duration sess)
                           (easeInOutCubic baseProgress) udc (meshes s c),
                    n := implodeMesh elapsed (duration sess) (easeInOutCubic baseProgress) ud
                           (meshes s n))\<rparr>
      in if baseProgress < Fin 1 then requestAnimationFrame (TransitionFrame sess) s2
         else completeTransition e p sess s2)"
  using assms
  by (simp add: animateTransition_def explodeCurrent_def implodeNext_def Let_def)

lemma complete_fields:
  "meshes (completeTransition e p sess s) =
     (case currentParticles s of
        None \<Rightarrow> meshes s
      | Some c \<Rightarrow> (meshes s)(c := (meshes s c)
                        \<lparr>geometryDisposed := geometryDisposed (meshes s c) + 1,
                         materialDisposed := materialDisposed (meshes s c) + 1\<rparr>))"
  "scene (completeTransition e p sess s) =
     (case currentParticles s of None \<Rightarrow> scene s | Some c \<Rightarrow> sceneRemove c (scene s))"
  "currentParticles (completeTransition e p sess s) = nextParticles s"
  "nextParticles (completeTransition e p sess s) = None"
  "currentImageIndex (completeTransition e p sess s) = nextIndex sess"
  "isTransitioning (completeTransition e p sess s) = False"
  "frameCallback (completeTransition e p sess s) = frameCallback s"
proof -
  let ?s1 = "(case currentParticles s of
                  None \<Rightarrow> s
                | Some c \<Rightarrow>
                    s\<lparr>scene := sceneRemove c (scene s),
                      meshes := (meshes s)
                        (c := (meshes s c)
                           \<lparr>geometryDisposed := geometryDisposed (meshes s c) + 1,
                            materialDisposed := materialDisposed (meshes s c) + 1\<rparr>)\<rparr>)"
  let ?s2 = "?s1\<lparr>currentParticles := nextParticles ?s1,
                  nextParticles := None,
                  currentImageIndex := nextIndex sess,
                  isTransitioning := False\<rparr>"
  obtain z where z: "updateCameraForParticles e ?s2 = ?s2\<lparr>targetCameraZ := z\<rparr>"
    using updateCamera_frame by blast
  have c: "completeTransition e p sess s =
      (if autoAdvance p then startAutoAdvance (?s2\<lparr>targetCameraZ := z\<rparr>)
       else ?s2\<lparr>targetCameraZ := z\<rparr>)"
    by (simp add: completeTransition_def Let_def z)
  show "meshes (completeTransition e p sess s) =
     (case currentParticles s of
        None \<Rightarrow> meshes s
      | Some c \<Rightarrow> (meshes s)(c := (meshes s c)
                        \<lparr>geometryDisposed := geometryDisposed (meshes s c) + 1,
                         materialDisposed := materialDisposed (meshes s c) + 1\<rparr>))"
    by (simp add: c startAutoAdvance_def Let_def split: option.splits)
  show "scene (completeTransition e p sess s) =
     (case currentParticles s of None \<Rightarrow> scene s | Some c \<Rightarrow> sceneRemove c (scene s))"
    by (simp add: c startAutoAdvance_def Let_def split: option.splits)
  show "currentParticles (completeTransition e p sess s) = nextParticles s"
    by (simp add: c startAutoAdvance_def Let_def split: option.splits)
  show "nextParticles (completeTransition e p sess s) = None"
    by (simp add: c startAutoAdvance_def Let_def split: option.splits)
  show "currentImageIndex (completeTransition e p sess s) = nextIndex sess"
    by (simp add: c startAutoAdvance_def Let_def split: option.splits)
  show "isTransitioning (completeTransition e p sess s) = False"
    by (simp add: c startAutoAdvance_def Let_def split: option.splits)
  show "frameCallback (completeTransition e p sess s) = frameCallback s"
    by (simp add: c startAutoAdvance_def Let_def split: option.splits)
qed

lemma request_fields [simp]:
  "meshes (requestAnimationFrame cb s) = meshes s"
  "scene (requestAnimationFrame cb s) = scene s"
  "currentParticles (requestAnimationFrame cb s) = currentParticles s"
  "nextParticles (requestAnimationFrame cb s) = nextParticles s"
  "isTransitioning (requestAnimationFrame cb s) = isTransitioning s"
  "frameCallback (requestAnimationFrame cb s) = Some cb"
  by (simp_all add: requestAnimationFrame_def)

lemma implodeStep_local:
  assumes "js_get pos (i * 3) = js_get pos' (i * 3)"
    "js_get pos (i * 3 + 1) = js_get pos' (i * 3 + 1)"
    "js_get pos (i * 3 + 2) = js_get pos' (i * 3 + 2)"
  shows "implodeStep elapsed dur ud i pos = implodeStep elapsed dur ud i pos'"
  using assms by (simp add: implodeStep_def)

lemma implodeMesh_fields [simp]:
  "opacity (implodeMesh elapsed dur ez ud m) = Fin (9 / 10) * ez"
  "geometryDisposed (implodeMesh elapsed dur ez ud m) = geometryDisposed m"
  "materialDisposed (implodeMesh elapsed dur ez ud m) = materialDisposed m"
  "userData (implodeMesh elapsed dur ez ud m) =
     Some (ud\<lparr>positions :=
        fst (forParticles (count ud) (implodeStep elapsed dur ud) (positions ud, instanceMatrix m))\<rparr>)"
  by (simp_all add: implodeMesh_def withPositions_def)

lemma explodeMesh_fields [simp]:
  "opacity (explodeMesh rnd r0 elapsed dur ez ud m) = Fin (9 / 10) * (Fin 1 - ez)"
  "geometryDisposed (explodeMesh rnd r0 elapsed dur ez ud m) = geometryDisposed m"
  "materialDisposed (explodeMesh rnd r0 elapsed dur ez ud m) = materialDisposed m"
  by (simp_all add: explodeMesh_def withPositions_def)

lemma implode_positions:
  fixes elapsed dur :: jsnum and ms :: "(jsnum \<times> jsnum \<times> jsnum) list"
  assumes len: "length (positions ud) = 3 * count ud" and i: "i < count ud" and j: "j < 3"
  defines "R \<equiv> fst (forParticles (count ud) (implodeStep elapsed dur ud) (positions ud, ms))"
  shows "length R = 3 * count ud"
    and "R ! (i * 3 + j) =
      implodeCoord (positions ud ! (i * 3 + j)) (js_get (originalPositions ud) (i * 3 + j))
        (easeInOutCubic (particleProgress elapsed (js_get (delays ud) i) dur))"
proof -
  have l: "count ud * 3 \<le> length (positions ud)" using len by simp
  note inv = forParticles_invariant [of "implodeStep elapsed dur ud" "count ud" "positions ud" ms,
      OF implodeStep_local l]
  show "length R = 3 * count ud" using inv len by (simp add: R_def)
  have in_range: "i * 3 < length (positions ud)" "i * 3 + 1 < length (positions ud)"
    "i * 3 + 2 < length (positions ud)"
    using i len by simp_all
  have step: "implodeStep elapsed dur ud i (positions ud) =
      (implodeCoord (positions ud ! (i * 3)) (js_get (originalPositions ud) (i * 3))
         (easeInOutCubic (particleProgress elapsed (js_get (delays ud) i) dur)),
       implodeCoord (positions ud ! (i * 3 + 1)) (js_get (originalPositions ud) (i * 3 + 1))
         (easeInOutCubic (particleProgress elapsed (js_get (delays ud) i) dur)),
       implodeCoord (positions ud ! (i * 3 + 2)) (js_get (originalPositions ud) (i * 3 + 2))
         (easeInOutCubic (particleProgress elapsed (js_get (delays ud) i) dur)))"
    using in_range by (simp add: implodeStep_def Let_def)
  have r:
    "R ! (i * 3) = fst (implodeStep elapsed dur ud i (positions ud))"
    "R ! (i * 3 + 1) = fst (snd (implodeStep elapsed dur ud i (positions ud)))"
    "R ! (i * 3 + 2) = snd (snd (implodeStep elapsed dur ud i (positions ud)))"
    using inv i unfolding R_def by blast+
  have "j = 0 \<or> j = 1 \<or> j = 2" using j by auto
  then show "R ! (i * 3 + j) =
      implodeCoord (positions ud ! (i * 3 + j)) (js_get (originalPositions ud) (i * 3 + j))
        (easeInOutCubic (particleProgress elapsed (js_get (delays ud) i) dur))"
    using r unfolding step by auto
qed

lemma midTransition_fields:
  "nextParticles midTransition = Some 1"
  "currentParticles midTransition = Some 0"
  "userData (meshes midTransition 1) =
     Some (exampleData 5)"
  "userData (meshes midTransition 0) =
     Some (exampleData 0)"
  "scene midTransition = [0, 1]"
  "geometryDisposed (meshes midTransition 0) = 0"
  "materialDisposed (meshes midTransition 0) = 0"
  "userData (meshes midTransition 1) \<noteq> None"
  "userData (meshes midTransition 0) \<noteq> None"
  by (simp_all add: midTransition_def initialDriver_def exampleSet_def)

lemma fin_divide_pos: "0 < d \<Longrightarrow> Fin a / Fin d = Fin (a / d)"
  by simp

lemma frame_incoming_mesh:
  assumes "nextParticles s = Some n" "userData (meshes s n) = Some ud"
    and "currentParticles s = None \<or>
         (\<exists>c udc. currentParticles s = Some c \<and> c \<noteq> n \<and> userData (meshes s c) = Some udc)"
  shows "meshes (animateTransition e p sess now s) n =
     implodeMesh (Fin (of_int (now - startTime sess))) (duration sess)
       (easeInOutCubic (js_min (Fin (of_int (now - startTime sess)) / duration sess) (Fin 1)))
       ud (meshes s n)"
  using assms(3)
proof
  assume "currentParticles s = None"
  then show ?thesis
    by (simp add: frame_without_outgoing [OF assms(1,2)] Let_def complete_fields(1))
next
  assume "\<exists>c udc. currentParticles s = Some c \<and> c \<noteq> n \<and> userData (meshes s c) = Some udc"
  then obtain c udc where c: "currentParticles s = Some c" "c \<noteq> n"
      "userData (meshes s c) = Some udc" by blast
  show ?thesis
    using c(2) by (simp add: frame_with_outgoing [OF assms(1,2) c] Let_def complete_fields(1) c(1))
qed

lemma frame_outgoing_mesh:
  assumes "nextParticles s = Some n" "userData (meshes s n) = Some ud"
    and "currentParticles s = Some c" "c \<noteq> n" "userData (meshes s c) = Some udc"
  shows "opacity (meshes (animateTransition e p sess now s) c) =
     Fin (9 / 10) * (Fin 1 -
       easeInOutCubic (js_min (Fin (of_int (now - startTime sess)) / duration sess) (Fin 1)))"
  using assms(4)
  by (simp add: frame_with_outgoing [OF assms] Let_def complete_fields(1) assms(3))

text \<open>
  C6. In every frame of a session with positive duration, coordinate \<open>j\<close> of particle
  \<open>i\<close> of the incoming set moves from \<open>pos\<close> to
  \<open>pos + (target - pos) * 0.02 * (1 + f(t) * 10)\<close>, where
  \<open>t = clamp(max(0, elapsed - delay[i]) / duration, 0, 1)\<close> and \<open>f\<close> is the
  ease-in-out cubic. A coordinate that is not at its target is not at its target after
  the frame either, so the chase does not reach the target exactly. The array lengths
  and the read-only arrays are as before.
\<close>

theorem incoming_particle_update:
  fixes d pos tgt dl :: real and now :: int
  assumes "nextParticles s = Some n" "userData (meshes s n) = Some ud"
    and "currentParticles s = None \<or>
         (\<exists>c udc. currentParticles s = Some c \<and> c \<noteq> n \<and> userData (meshes s c) = Some udc)"
    and "length (positions ud) = 3 * count ud"
    and "duration sess = Fin d" "0 < d"
    and "i < count ud" "j < 3"
    and "positions ud ! (i * 3 + j) = Fin pos"
    and "js_get (originalPositions ud) (i * 3 + j) = Fin tgt"
    and "js_get (delays ud) i = Fin dl"
  defines "t \<equiv> max 0 (min 1 (max 0 (real_of_int (now - startTime sess) - dl) / d))"
  defines "f \<equiv> (if t < 1 / 2 then 4 * t ^ 3 else 1 - (- 2 * t + 2) ^ 3 / 2)"
  shows "\<exists>ud'. userData (meshes (animateTransition e p sess now s) n) = Some ud'
           \<and> positions ud' ! (i * 3 + j) = Fin (pos + (tgt - pos) * (2 / 100) * (1 + f * 10))
           \<and> (pos \<noteq> tgt \<longrightarrow> pos + (tgt - pos) * (2 / 100) * (1 + f * 10) \<noteq> tgt)
           \<and> length (positions ud') = 3 * count ud'
           \<and> originalPositions ud' = originalPositions ud
           \<and> delays ud' = delays ud
           \<and> count ud' = count ud"
proof -
  let ?el = "Fin (of_int (now - startTime sess))"
  let ?ez = "easeInOutCubic (js_min (?el / duration sess) (Fin 1))"
  let ?R = "fst (forParticles (count ud) (implodeStep ?el (duration sess) ud)
                   (positions ud, instanceMatrix (meshes s n)))"
  let ?ud' = "ud\<lparr>positions := ?R\<rparr>"
  have m: "userData (meshes (animateTransition e p sess now s) n) = Some ?ud'"
    by (simp add: frame_incoming_mesh [OF assms(1-3)])
  have t_code: "t = min (max 0 (real_of_int (now - startTime sess) - dl) / d) 1"
  proof -
    have "0 \<le> max 0 (real_of_int (now - startTime sess) - dl) / d" using assms(6) by simp
    then show ?thesis by (simp add: t_def min.commute max_def)
  qed
  have t01: "0 \<le> t" "t \<le> 1" by (simp_all add: t_def)
  have f01: "0 \<le> f" "f \<le> 1" using cubic_bounds [OF t01] by (simp_all add: f_def)
  have "particleProgress ?el (Fin dl) (Fin d) = Fin t"
    unfolding t_code by (rule particleProgress_fin [OF assms(6)])
  moreover have "easeInOutCubic (Fin t) = Fin f"
    unfolding f_def by (rule easeInOutCubic_fin)
  ultimately have prog:
    "easeInOutCubic (particleProgress ?el (js_get (delays ud) i) (duration sess)) = Fin f"
    by (simp only: assms(5,11))
  have "?R ! (i * 3 + j) =
      implodeCoord (positions ud ! (i * 3 + j)) (js_get (originalPositions ud) (i * 3 + j))
        (easeInOutCubic (particleProgress ?el (js_get (delays ud) i) (duration sess)))"
    using implode_positions(2) [OF assms(4,7,8)] by simp
  then have p: "?R ! (i * 3 + j) = Fin (pos + (tgt - pos) * (2 / 100) * (1 + f * 10))"
    by (simp only: assms(9,10) prog implodeCoord_fin)
  have l: "length ?R = 3 * count ud" using implode_positions(1) [OF assms(4,7,8)] by simp
  have away: "pos + (tgt - pos) * (2 / 100) * (1 + f * 10) \<noteq> tgt" if "pos \<noteq> tgt"
  proof
    assume "pos + (tgt - pos) * (2 / 100) * (1 + f * 10) = tgt"
    then have "(tgt - pos) * ((2 / 100) * (1 + f * 10) - 1) = 0" by (simp add: algebra_simps)
    moreover have "(2 / 100) * (1 + f * 10) - 1 \<noteq> 0" using f01 by simp
    ultimately show False using that by simp
  qed
  show ?thesis using m p l away by simp
qed

theorem incoming_particle_update_witness:
  "nextParticles midTransition = Some 1
   \<and> currentParticles midTransition = Some 0 \<and> (0::nat) \<noteq> 1
   \<and> userData (meshes midTransition 1) \<noteq> None \<and> userData (meshes midTransition 0) \<noteq> None
   \<and> duration exampleSession = Fin 2000 \<and> (0::real) < 2000
   \<and> (\<exists>ud'. userData (meshes (animateTransition whiteEnv defaultProps exampleSession 2000
                 midTransition) 1) = Some ud'
           \<and> positions ud' ! 0 = Fin (892 / 100))"
proof -
  let ?ud = "exampleData 5"
  have h3: "currentParticles midTransition = None \<or>
         (\<exists>c udc. currentParticles midTransition = Some c \<and> c \<noteq> 1
            \<and> userData (meshes midTransition c) = Some udc)"
    by (simp add: midTransition_fields)
  have h4: "length (positions ?ud) = 3 * count ?ud" by (simp add: exampleData_def)
  have h5: "duration exampleSession = Fin 2000" by (simp add: exampleSession_def)
  have h6: "(0::real) < 2000" by simp
  have h7: "0 < count ?ud" by (simp add: exampleData_def)
  have h8: "(0::nat) < 3" by simp
  have h9: "positions ?ud ! (0 * 3 + 0) = Fin 10" by (simp add: exampleData_def)
  have h10: "js_get (originalPositions ?ud) (0 * 3 + 0) = Fin 1"
    by (simp add: js_get_def exampleData_def)
  have h11: "js_get (delays ?ud) 0 = Fin 1000" by (simp add: js_get_def exampleData_def)
  obtain ud' where u: "userData (meshes (animateTransition whiteEnv defaultProps exampleSession 2000
                 midTransition) 1) = Some ud'"
     "positions ud' ! (0 * 3 + 0) =
        Fin (10 + (1 - 10) * (2 / 100) *
          (1 + (if max 0 (min 1 (max 0 (real_of_int (2000 - startTime exampleSession) - 1000) / 2000))
                   < 1 / 2
                then 4 * max 0 (min 1 (max 0 (real_of_int (2000 - startTime exampleSession) - 1000) / 2000)) ^ 3
                else 1 - (- 2 * max 0 (min 1 (max 0 (real_of_int (2000 - startTime exampleSession) - 1000) / 2000)) + 2) ^ 3 / 2) * 10))"
    using incoming_particle_update [OF midTransition_fields(1,3) h3 h4 h5 h6 h7 h8 h9 h10 h11,
        where e = whiteEnv and p = defaultProps and now = 2000] by blast
  have "positions ud' ! 0 = Fin (892 / 100)"
    using u(2) by (simp add: exampleSession_def)
  then show ?thesis
    using u(1) h5 h6 midTransition_fields(8,9) by (simp add: midTransition_fields(1,2))
qed

text \<open>
  C9. In every frame of a session with positive duration \<open>d\<close>, at elapsed time \<open>el\<close>, the
  opacity of the outgoing set becomes \<open>0.9 * (1 - v)\<close> and that of the incoming set
  \<open>0.9 * v\<close>, where \<open>v = easeInOutCubic(min(el / d, 1))\<close> does not depend on any
  particle's delay; \<open>v\<close> is 0 at \<open>el = 0\<close>, 1 from \<open>el = d\<close> on, and in [0, 1] in
  between.
\<close>

theorem transition_opacity:
  fixes d :: real and now :: int
  assumes "nextParticles s = Some n" "userData (meshes s n) = Some ud"
    and "currentParticles s = Some c" "c \<noteq> n" "userData (meshes s c) = Some udc"
    and "duration sess = Fin d" "0 < d"
  defines "el \<equiv> real_of_int (now - startTime sess)"
  shows "\<exists>v. easeInOutCubic (js_min (Fin el / Fin d) (Fin 1)) = Fin v
           \<and> easeInOutCubic (Fin (min (el / d) 1)) = Fin v
           \<and> opacity (meshes (animateTransition e p sess now s) c) = Fin (9 / 10 * (1 - v))
           \<and> opacity (meshes (animateTransition e p sess now s) n) = Fin (9 / 10 * v)
           \<and> (el = 0 \<longrightarrow> v = 0)
           \<and> (d \<le> el \<longrightarrow> v = 1)
           \<and> (0 \<le> el \<longrightarrow> 0 \<le> v \<and> v \<le> 1)"
proof -
  define b where "b = min (el / d) 1"
  define v where "v = (if b < 1 / 2 then 4 * b ^ 3 else 1 - (- 2 * b + 2) ^ 3 / 2)"
  have base: "js_min (Fin el / Fin d) (Fin 1) = Fin b"
    using assms(7) by (simp add: b_def)
  have ez: "easeInOutCubic (Fin b) = Fin v"
    unfolding v_def by (rule easeInOutCubic_fin)
  have el: "Fin (of_int (now - startTime sess)) = Fin el" by (simp only: el_def)
  have out: "opacity (meshes (animateTransition e p sess now s) c) = Fin (9 / 10 * (1 - v))"
    by (simp only: frame_outgoing_mesh [OF assms(1-5)] assms(6) el base ez
        fin_minus times_jsnum.simps)
  have inc: "opacity (meshes (animateTransition e p sess now s) n) = Fin (9 / 10 * v)"
  proof -
    have "currentParticles s = None \<or>
         (\<exists>c udc. currentParticles s = Some c \<and> c \<noteq> n \<and> userData (meshes s c) = Some udc)"
      using assms(3-5) by blast
    note frame_incoming_mesh [OF assms(1,2) this]
    then show ?thesis
      by (simp only: implodeMesh_fields(1) assms(6) el base ez times_jsnum.simps)
  qed
  have z: "v = 0" if "el = 0"
    using that assms(7) by (simp add: v_def b_def)
  have one: "v = 1" if "d \<le> el"
  proof -
    have "1 \<le> el / d" using that assms(7) by simp
    then have "b = 1" by (simp add: b_def)
    then show ?thesis by (simp add: v_def)
  qed
  have bound: "0 \<le> v \<and> v \<le> 1" if "0 \<le> el"
  proof -
    have "0 \<le> el / d" using that assms(7) by simp
    then have "0 \<le> b" "b \<le> 1" by (simp_all add: b_def)
    then show ?thesis using cubic_bounds [of b] by (simp add: v_def)
  qed
  have first: "easeInOutCubic (js_min (Fin el / Fin d) (Fin 1)) = Fin v"
    by (simp only: base ez)
  have second: "easeInOutCubic (Fin (min (el / d) 1)) = Fin v"
    using ez by (simp only: b_def)
  show ?thesis using first second out inc z one bound by blast
qed

theorem transition_opacity_witness:
  "nextParticles midTransition = Some 1
   \<and> currentParticles midTransition = Some 0 \<and> (0::nat) \<noteq> 1
   \<and> userData (meshes midTransition 1) \<noteq> None \<and> userData (meshes midTransition 0) \<noteq> None
   \<and> duration exampleSession = Fin 2000 \<and> (0::real) < 2000
   \<and> opacity (meshes (animateTransition whiteEnv defaultProps exampleSession 1000 midTransition) 0)
        = Fin (9 / 20)
   \<and> opacity (meshes (animateTransition whiteEnv defaultProps exampleSession 1000 midTransition) 1)
        = Fin (9 / 20)"
proof -
  have h6: "duration exampleSession = Fin 2000" by (simp add: exampleSession_def)
  have h7: "(0::real) < 2000" by simp
  have h4: "(0::nat) \<noteq> 1" by simp
  obtain v where v: "easeInOutCubic (Fin (min (real_of_int (1000 - startTime exampleSession) / 2000) 1)) = Fin v"
    "opacity (meshes (animateTransition whiteEnv defaultProps exampleSession 1000 midTransition) 0)
        = Fin (9 / 10 * (1 - v))"
    "opacity (meshes (animateTransition whiteEnv defaultProps exampleSession 1000 midTransition) 1)
        = Fin (9 / 10 * v)"
    using transition_opacity [OF midTransition_fields(1,3,2) h4 midTransition_fields(4) h6 h7,
      where e = whiteEnv and p = defaultProps and now = 1000] by blast
  have "v = 1 / 2" using v(1) by (simp add: exampleSession_def easeInOutCubic_fin)
  then show ?thesis
    using v(2,3) h6 h7 midTransition_fields(8,9) by (simp add: midTransition_fields(1,2))
qed

text \<open>
  C3. In the frame in which the elapsed time has reached the duration, the outgoing set
  is removed from the scene, its geometry and its material are disposed once more than
  before (and the incoming set's are not), the incoming set becomes \<open>currentParticles\<close>,
  \<open>nextParticles\<close> is cleared, \<open>currentImageIndex\<close> becomes the index the session
  targets, \<open>isTransitioning\<close> is false, no further frame of the session is requested,
  and the last steps are \<open>updateCameraForParticles\<close> on that state and, with
  auto-advance, \<open>startAutoAdvance\<close>.
\<close>

theorem transition_completion:
  fixes d :: real and now :: int and e :: env and p :: props
  assumes "nextParticles s = Some n" "userData (meshes s n) = Some ud"
    and "currentParticles s = Some c" "c \<noteq> n" "userData (meshes s c) = Some udc"
    and "duration sess = Fin d" "0 < d" "d \<le> real_of_int (now - startTime sess)"
  defines "s' \<equiv> animateTransition e p sess now s"
  shows "scene s' = sceneRemove c (scene s)
       \<and> c \<notin> set (scene s')
       \<and> (n \<in> set (scene s) \<longrightarrow> n \<in> set (scene s'))
       \<and> geometryDisposed (meshes s' c) = geometryDisposed (meshes s c) + 1
       \<and> materialDisposed (meshes s' c) = materialDisposed (meshes s c) + 1
       \<and> geometryDisposed (meshes s' n) = geometryDisposed (meshes s n)
       \<and> materialDisposed (meshes s' n) = materialDisposed (meshes s n)
       \<and> currentParticles s' = Some n
       \<and> nextParticles s' = None
       \<and> currentImageIndex s' = nextIndex sess
       \<and> isTransitioning s' = False
       \<and> frameCallback s' = None
       \<and> (\<exists>s2. currentParticles s2 = Some n \<and> nextParticles s2 = None
              \<and> \<not> isTransitioning s2
              \<and> s' = (if autoAdvance p then startAutoAdvance (updateCameraForParticles e s2)
                       else updateCameraForParticles e s2))"
proof -
  let ?el = "Fin (of_int (now - startTime sess))"
  let ?base = "js_min (?el / duration sess) (Fin 1)"
  let ?s2 = "s\<lparr>frameCallback := None,
                 randomUsed := randomUsed s + 4 * count udc,
                 meshes := (meshes s)
                   (c := explodeMesh (mathRandom e) (randomUsed s) ?el (duration sess)
                           (easeInOutCubic ?base) udc (meshes s c),
                    n := implodeMesh ?el (duration sess) (easeInOutCubic ?base) ud
                           (meshes s n))\<rparr>"
  have "1 \<le> real_of_int (now - startTime sess) / d" using assms(7,8) by simp
  then have "?base = Fin 1"
    using assms(7) by (simp only: assms(6) fin_divide_pos js_min_fin min_def) simp
  then have reached: "\<not> ?base < Fin 1" by simp
  have s': "s' = completeTransition e p sess ?s2"
    unfolding s'_def frame_with_outgoing [OF assms(1-5)] Let_def using reached by simp
  have f1: "scene s' = sceneRemove c (scene s)"
    by (simp add: s' complete_fields assms(3))
  have f2: "c \<notin> set (scene s')" by (simp add: f1 sceneRemove_def)
  have f3: "n \<in> set (scene s')" if "n \<in> set (scene s)"
    using that assms(4) by (simp add: f1 sceneRemove_def)
  have f4: "geometryDisposed (meshes s' c) = geometryDisposed (meshes s c) + 1"
    "materialDisposed (meshes s' c) = materialDisposed (meshes s c) + 1"
    using assms(4) by (simp_all add: s' complete_fields assms(3))
  have f5: "geometryDisposed (meshes s' n) = geometryDisposed (meshes s n)"
    "materialDisposed (meshes s' n) = materialDisposed (meshes s n)"
    using assms(4) by (simp_all add: s' complete_fields assms(3))
  have f6: "currentParticles s' = Some n" "nextParticles s' = None"
    "currentImageIndex s' = nextIndex sess" "isTransitioning s' = False"
    "frameCallback s' = None"
    by (simp_all add: s' complete_fields assms(1))
  let ?s1 = "?s2\<lparr>scene := sceneRemove c (scene ?s2),
                 meshes := (meshes ?s2)
                    (c := (meshes ?s2 c)
                       \<lparr>geometryDisposed := geometryDisposed (meshes ?s2 c) + 1,
                        materialDisposed := materialDisposed (meshes ?s2 c) + 1\<rparr>)\<rparr>"
  let ?pr = "?s1\<lparr>currentParticles := nextParticles ?s1, nextParticles := None,
                 currentImageIndex := nextIndex sess, isTransitioning := False\<rparr>"
  have "s' = (if autoAdvance p then startAutoAdvance (updateCameraForParticles e ?pr)
              else updateCameraForParticles e ?pr)"
    by (simp add: s' completeTransition_def Let_def assms(3))
  moreover have "currentParticles ?pr = Some n" "nextParticles ?pr = None" "\<not> isTransitioning ?pr"
    by (simp_all add: assms(1))
  ultimately have f7: "\<exists>s2. currentParticles s2 = Some n \<and> nextParticles s2 = None
              \<and> \<not> isTransitioning s2
              \<and> s' = (if autoAdvance p then startAutoAdvance (updateCameraForParticles e s2)
                       else updateCameraForParticles e s2)"
    by blast
  show ?thesis using f1 f2 f3 f4 f5 f6 f7 by blast
qed

theorem transition_completion_witness:
  "nextParticles midTransition = Some 1
   \<and> currentParticles midTransition = Some 0 \<and> (0::nat) \<noteq> 1
   \<and> userData (meshes midTransition 1) \<noteq> None \<and> userData (meshes midTransition 0) \<noteq> None
   \<and> duration exampleSession = Fin 2000 \<and> (0::real) < 2000
   \<and> (2000::real) \<le> real_of_int (2000 - startTime exampleSession)
   \<and> scene (animateTransition whiteEnv defaultProps exampleSession 2000 midTransition) = [1]
   \<and> geometryDisposed
        (meshes (animateTransition whiteEnv defaultProps exampleSession 2000 midTransition) 0) = 1
   \<and> materialDisposed
        (meshes (animateTransition whiteEnv defaultProps exampleSession 2000 midTransition) 0) = 1
   \<and> currentParticles (animateTransition whiteEnv defaultProps exampleSession 2000 midTransition)
        = Some 1
   \<and> nextParticles (animateTransition whiteEnv defaultProps exampleSession 2000 midTransition)
        = None
   \<and> currentImageIndex (animateTransition whiteEnv defaultProps exampleSession 2000 midTransition)
        = 1
   \<and> \<not> isTransitioning (animateTransition whiteEnv defaultProps exampleSession 2000 midTransition)"
proof -
  have h6: "duration exampleSession = Fin 2000" by (simp add: exampleSession_def)
  have h7: "(0::real) < 2000" by simp
  have h8: "(2000::real) \<le> real_of_int (2000 - startTime exampleSession)"
    by (simp add: exampleSession_def)
  have h4: "(0::nat) \<noteq> 1" by simp
  let ?s' = "animateTransition whiteEnv defaultProps exampleSession 2000 midTransition"
  note t = transition_completion [OF midTransition_fields(1,3,2) h4 midTransition_fields(4) h6 h7 h8,
      where e = whiteEnv and p = defaultProps]
  have c1: "scene ?s' = sceneRemove 0 (scene midTransition)" using t by blast
  have c2: "geometryDisposed (meshes ?s' 0) = geometryDisposed (meshes midTransition 0) + 1"
    using t by blast
  have c3: "materialDisposed (meshes ?s' 0) = materialDisposed (meshes midTransition 0) + 1"
    using t by blast
  have c4: "currentParticles ?s' = Some 1" using t by blast
  have c5: "nextParticles ?s' = None" using t by blast
  have c6: "currentImageIndex ?s' = nextIndex exampleSession" using t by blast
  have c7: "\<not> isTransitioning ?s'" using t by blast
  have n: "nextIndex exampleSession = 1" by (simp add: exampleSession_def)
  show ?thesis
    using h6 h7 h8 midTransition_fields(8,9)
    by (simp add: c1 c2 c3 c4 c5 c6 c7 n midTransition_fields(1,2,5,6,7) sceneRemove_def)
qed

section \<open>The camera framer\<close>

lemma exampleData_bounds:
  "maxX (particleBounds (exampleData z)) - minX (particleBounds (exampleData z)) \<le> Fin 0"
  by (simp add: particleBounds_def exampleData_def extendBounds_def initialBounds_def
      js_get_def js_min_def js_max_def less_eq_jsnum_def Let_def)

text \<open>
  C7 as stated does not hold: with a transition in flight the function returns at its
  guard. Here the current set has one particle (a bounding size of zero) and the camera
  was zoomed out to 15; \<open>targetCameraZ\<close> stays 15.
\<close>

theorem framer_guard_counterexample:
  "isTransitioning zoomedOut
   \<and> currentParticles zoomedOut = Some 0
   \<and> userData (meshes zoomedOut 0) = Some (exampleData 0)
   \<and> maxX (particleBounds (exampleData 0)) - minX (particleBounds (exampleData 0)) \<le> Fin 0
   \<and> targetCameraZ (updateCameraForParticles whiteEnv zoomedOut) = Fin 15
   \<and> targetCameraZ (updateCameraForParticles whiteEnv zoomedOut) \<noteq> Fin 5"
proof -
  have "isTransitioning zoomedOut" "currentParticles zoomedOut = Some 0"
    "userData (meshes zoomedOut 0) = Some (exampleData 0)"
    by (simp_all add: zoomedOut_def midTransition_def initialDriver_def exampleSet_def)
  moreover have "targetCameraZ (updateCameraForParticles whiteEnv zoomedOut) = Fin 15"
    by (simp add: zoomedOut_def midTransition_def initialDriver_def updateCameraForParticles_def)
  ultimately show ?thesis using exampleData_bounds [of 0] by simp
qed

lemma isFinite_iff: "isFinite a \<longleftrightarrow> (\<exists>r. a = Fin r)"
  by (cases a) auto

lemma frameSize_degenerate:
  assumes "sx \<le> Fin 0 \<or> sy \<le> Fin 0 \<or> \<not> isFinite sx \<or> \<not> isFinite sy
     \<or> \<not> isFinite (framerDistance e fov sx sy) \<or> framerDistance e fov sx sy \<le> Fin 0
     \<or> Fin 1000 < framerDistance e fov sx sy"
  shows "frameSize e fov sx sy padding = Fin 5"
  using assms by (auto simp: frameSize_def Let_def)

lemma frameSize_finite: "isFinite (frameSize e fov sx sy (Fin pd))"
proof -
  have "isFinite (d * Fin pd)" if "isFinite d" for d
    using that by (cases d) auto
  then show ?thesis by (simp add: frameSize_def Let_def)
qed

text \<open>
  C7, as amended. When \<open>updateCameraForParticles\<close> passes its guard (a camera and a
  current set exist and no transition is in flight), every degenerate input makes it set
  \<open>targetCameraZ\<close> to 5: a count of 0 or an empty position array, a bounding size that is
  not positive or not finite, a distance that is not finite, not positive or above 1000,
  and, without \<open>userData\<close>, an empty bounding box; and the value it assigns is always
  finite. When the guard fails the state, and with it \<open>targetCameraZ\<close>, is unchanged.
\<close>

theorem framer_default_when_run:
  "(camera s = Some fov \<and> currentParticles s = Some c \<and> \<not> isTransitioning s \<longrightarrow>
      (\<forall>ud. userData (meshes s c) = Some ud \<longrightarrow>
         (let b = particleBounds ud;
              sx = maxX b - minX b;
              sy = maxY b - minY b;
              dist = framerDistance e fov sx sy
          in count ud = 0 \<or> originalPositions ud = []
             \<or> sx \<le> Fin 0 \<or> sy \<le> Fin 0 \<or> \<not> isFinite sx \<or> \<not> isFinite sy
             \<or> \<not> isFinite dist \<or> dist \<le> Fin 0 \<or> Fin 1000 < dist
             \<longrightarrow> targetCameraZ (updateCameraForParticles e s) = Fin 5))
    \<and> (userData (meshes s c) = None \<longrightarrow>
         (boundingSize e (meshes s c) = None
            \<longrightarrow> targetCameraZ (updateCameraForParticles e s) = Fin 5)
       \<and> (\<forall>sx sy. boundingSize e (meshes s c) = Some (sx, sy) \<longrightarrow>
             (sx \<le> Fin 0 \<or> sy \<le> Fin 0 \<or> \<not> isFinite sx \<or> \<not> isFinite sy
              \<or> \<not> isFinite (framerDistance e fov sx sy)
              \<or> framerDistance e fov sx sy \<le> Fin 0
              \<or> Fin 1000 < framerDistance e fov sx sy)
             \<longrightarrow> targetCameraZ (updateCameraForParticles e s) = Fin 5))
    \<and> isFinite (targetCameraZ (updateCameraForParticles e s)))
   \<and> (camera s = None \<or> currentParticles s = None \<or> isTransitioning s \<longrightarrow>
        updateCameraForParticles e s = s)"
proof (intro conjI impI allI)
  assume g: "camera s = Some fov \<and> currentParticles s = Some c \<and> \<not> isTransitioning s"
  fix ud assume ud: "userData (meshes s c) = Some ud"
  show "let b = particleBounds ud;
              sx = maxX b - minX b;
              sy = maxY b - minY b;
              dist = framerDistance e fov sx sy
          in count ud = 0 \<or> originalPositions ud = []
             \<or> sx \<le> Fin 0 \<or> sy \<le> Fin 0 \<or> \<not> isFinite sx \<or> \<not> isFinite sy
             \<or> \<not> isFinite dist \<or> dist \<le> Fin 0 \<or> Fin 1000 < dist
             \<longrightarrow> targetCameraZ (updateCameraForParticles e s) = Fin 5"
    unfolding Let_def
  proof
    let ?b = "particleBounds ud"
    assume d: "count ud = 0 \<or> originalPositions ud = []
       \<or> maxX ?b - minX ?b \<le> Fin 0 \<or> maxY ?b - minY ?b \<le> Fin 0
       \<or> \<not> isFinite (maxX ?b - minX ?b) \<or> \<not> isFinite (maxY ?b - minY ?b)
       \<or> \<not> isFinite (framerDistance e fov (maxX ?b - minX ?b) (maxY ?b - minY ?b))
       \<or> framerDistance e fov (maxX ?b - minX ?b) (maxY ?b - minY ?b) \<le> Fin 0
       \<or> Fin 1000 < framerDistance e fov (maxX ?b - minX ?b) (maxY ?b - minY ?b)"
    show "targetCameraZ (updateCameraForParticles e s) = Fin 5"
    proof (cases "count ud = 0 \<or> originalPositions ud = []")
      case True
      then show ?thesis using g ud by (auto simp: updateCameraForParticles_def)
    next
      case False
      then have "frameSize e fov (maxX ?b - minX ?b) (maxY ?b - minY ?b) (Fin (1 / 2)) = Fin 5"
        using d by (intro frameSize_degenerate) blast
      then show ?thesis using g ud False by (simp add: updateCameraForParticles_def Let_def)
    qed
  qed
next
  assume g: "camera s = Some fov \<and> currentParticles s = Some c \<and> \<not> isTransitioning s"
    and "userData (meshes s c) = None" "boundingSize e (meshes s c) = None"
  then show "targetCameraZ (updateCameraForParticles e s) = Fin 5"
    by (simp add: updateCameraForParticles_def)
next
  fix sx sy
  assume g: "camera s = Some fov \<and> currentParticles s = Some c \<and> \<not> isTransitioning s"
    and n: "userData (meshes s c) = None" "boundingSize e (meshes s c) = Some (sx, sy)"
    and d: "sx \<le> Fin 0 \<or> sy \<le> Fin 0 \<or> \<not> isFinite sx \<or> \<not> isFinite sy
              \<or> \<not> isFinite (framerDistance e fov sx sy)
              \<or> framerDistance e fov sx sy \<le> Fin 0
              \<or> Fin 1000 < framerDistance e fov sx sy"
  have "frameSize e fov sx sy (Fin (5 / 100)) = Fin 5"
    using d by (rule frameSize_degenerate)
  then show "targetCameraZ (updateCameraForParticles e s) = Fin 5"
    using g n by (simp add: updateCameraForParticles_def)
next
  assume g: "camera s = Some fov \<and> currentParticles s = Some c \<and> \<not> isTransitioning s"
  show "isFinite (targetCameraZ (updateCameraForParticles e s))"
    using g by (simp add: updateCameraForParticles_def Let_def frameSize_finite
        split: option.splits)
next
  assume "camera s = None \<or> currentParticles s = None \<or> isTransitioning s"
  then show "updateCameraForParticles e s = s"
    by (auto simp: updateCameraForParticles_def split: option.splits)
qed

theorem framer_default_when_run_witness:
  "camera (zoomedOut\<lparr>isTransitioning := False\<rparr>) = Some (Fin 5)
   \<and> currentParticles (zoomedOut\<lparr>isTransitioning := False\<rparr>) = Some 0
   \<and> \<not> isTransitioning (zoomedOut\<lparr>isTransitioning := False\<rparr>)
   \<and> targetCameraZ (updateCameraForParticles whiteEnv (zoomedOut\<lparr>isTransitioning := False\<rparr>))
        = Fin 5
   \<and> isTransitioning zoomedOut
   \<and> updateCameraForParticles whiteEnv zoomedOut = zoomedOut"
proof -
  let ?s = "zoomedOut\<lparr>isTransitioning := False\<rparr>"
  let ?ud = "exampleData 0"
  let ?b = "particleBounds ?ud"
  have g: "camera ?s = Some (Fin 5) \<and> currentParticles ?s = Some 0 \<and> \<not> isTransitioning ?s"
    by (simp add: zoomedOut_def midTransition_def initialDriver_def)
  have u: "userData (meshes ?s 0) = Some ?ud"
    by (simp add: zoomedOut_def midTransition_def initialDriver_def exampleSet_def)
  note z = exampleData_bounds [of 0]
  note t = framer_default_when_run [of ?s "Fin 5" 0 whiteEnv]
  note a = t [THEN conjunct1, THEN mp, OF g, THEN conjunct1, THEN spec, THEN mp, OF u,
      unfolded Let_def]
  have d: "count ?ud = 0 \<or> originalPositions ?ud = []
       \<or> maxX ?b - minX ?b \<le> Fin 0 \<or> maxY ?b - minY ?b \<le> Fin 0
       \<or> \<not> isFinite (maxX ?b - minX ?b) \<or> \<not> isFinite (maxY ?b - minY ?b)
       \<or> \<not> isFinite (framerDistance whiteEnv (Fin 5) (maxX ?b - minX ?b) (maxY ?b - minY ?b))
       \<or> framerDistance whiteEnv (Fin 5) (maxX ?b - minX ?b) (maxY ?b - minY ?b) \<le> Fin 0
       \<or> Fin 1000 < framerDistance whiteEnv (Fin 5) (maxX ?b - minX ?b) (maxY ?b - minY ?b)"
    by (rule disjI2, rule disjI2, rule disjI1, rule z)
  have five: "targetCameraZ (updateCameraForParticles whiteEnv ?s) = Fin 5"
    by (rule a [THEN mp, OF d])
  have busy: "isTransitioning zoomedOut" by (simp add: zoomedOut_def midTransition_def)
  have "camera zoomedOut = None \<or> currentParticles zoomedOut = None \<or> isTransitioning zoomedOut"
    using busy by simp
  note same = framer_default_when_run [of zoomedOut "Fin 5" 0 whiteEnv, THEN conjunct2, THEN mp,
      OF this]
  show ?thesis
    by (intro conjI g [THEN conjunct1] g [THEN conjunct2, THEN conjunct1]
        g [THEN conjunct2, THEN conjunct2] five busy same)
qed

section \<open>Seeding the far positions\<close>

lemma farPosition_fin:
  "farPosition (Fin x) (Fin y) r =
     (Fin (x * (10 + sqrt (x\<^sup>2 + y\<^sup>2) * 5)), Fin (y * (10 + sqrt (x\<^sup>2 + y\<^sup>2) * 5)),
      Fin ((r - 1 / 2) * 20))"
proof -
  have "\<not> x * x + y * y < 0" by (simp add: not_less)
  then show ?thesis by (simp add: farPosition_def Let_def power2_eq_square)
qed

lemma seed_positions:
  assumes len: "length (positions ud) = 3 * count ud"
    and same: "positions ud = originalPositions ud"
    and i: "i < count ud"
  shows "fst (seedNext rnd r0 ud ms) ! (i * 3) =
           fst (farPosition (originalPositions ud ! (i * 3)) (originalPositions ud ! (i * 3 + 1))
                  (rnd (r0 + i)))"
    and "fst (seedNext rnd r0 ud ms) ! (i * 3 + 1) =
           fst (snd (farPosition (originalPositions ud ! (i * 3))
                  (originalPositions ud ! (i * 3 + 1)) (rnd (r0 + i))))"
    and "fst (seedNext rnd r0 ud ms) ! (i * 3 + 2) =
           snd (snd (farPosition (originalPositions ud ! (i * 3))
                  (originalPositions ud ! (i * 3 + 1)) (rnd (r0 + i))))"
    and "fst (seedInitial rnd r0 ud ms) = fst (seedNext rnd r0 ud ms)"
proof -
  have l: "count ud * 3 \<le> length (positions ud)" using len by simp
  have r: "i * 3 < length (positions ud)" "i * 3 + 1 < length (positions ud)"
    using i len by simp_all
  define body where
    "body = (\<lambda>i pos. farPosition (js_get pos (i * 3)) (js_get pos (i * 3 + 1)) (rnd (r0 + i)))"
  have loc: "body k pos = body k pos'"
    if "js_get pos (k * 3) = js_get pos' (k * 3)"
      "js_get pos (k * 3 + 1) = js_get pos' (k * 3 + 1)"
      "js_get pos (k * 3 + 2) = js_get pos' (k * 3 + 2)" for k pos pos'
    using that by (simp add: body_def)
  have sn: "seedNext rnd r0 ud ms = forParticles (count ud) body (positions ud, ms)"
    by (simp add: seedNext_def body_def)
  note inv = forParticles_invariant [of body "count ud" "positions ud" ms, OF loc l, folded sn]
  have b: "body i (positions ud) =
           farPosition (originalPositions ud ! (i * 3)) (originalPositions ud ! (i * 3 + 1))
             (rnd (r0 + i))"
    using r by (simp add: body_def same [symmetric])
  show "fst (seedNext rnd r0 ud ms) ! (i * 3) =
           fst (farPosition (originalPositions ud ! (i * 3)) (originalPositions ud ! (i * 3 + 1))
                  (rnd (r0 + i)))"
    using inv i b by simp
  show "fst (seedNext rnd r0 ud ms) ! (i * 3 + 1) =
           fst (snd (farPosition (originalPositions ud ! (i * 3))
                  (originalPositions ud ! (i * 3 + 1)) (rnd (r0 + i))))"
    using inv i b by simp
  show "fst (seedNext rnd r0 ud ms) ! (i * 3 + 2) =
           snd (snd (farPosition (originalPositions ud ! (i * 3))
                  (originalPositions ud ! (i * 3 + 1)) (rnd (r0 + i))))"
    using inv i b by simp
  have "forParticles n
          (\<lambda>i pos. farPosition (js_get (originalPositions ud) (i * 3))
                  (js_get (originalPositions ud) (i * 3 + 1)) (rnd (r0 + i)))
          (positions ud, ms) =
        forParticles n body (positions ud, ms)" if "n \<le> count ud" for n
    using that
  proof (induction n)
    case 0
    then show ?case by simp
  next
    case (Suc n)
    let ?R = "forParticles n body (positions ud, ms)"
    have n3: "n * 3 \<le> length (positions ud)" "n * 3 + 1 < length (positions ud)"
      using Suc.prems len by simp_all
    note invn = forParticles_invariant [of body n "positions ud" ms, OF loc n3(1)]
    have "js_get (fst ?R) (n * 3) = js_get (originalPositions ud) (n * 3)"
      "js_get (fst ?R) (n * 3 + 1) = js_get (originalPositions ud) (n * 3 + 1)"
      using invn n3(2) by (simp_all add: js_get_def same [symmetric])
    then have "body n (fst ?R) =
        farPosition (js_get (originalPositions ud) (n * 3))
          (js_get (originalPositions ud) (n * 3 + 1)) (rnd (r0 + n))"
      by (simp add: body_def)
    then show ?case using Suc by (simp add: forParticles_Suc)
  qed
  then show "fst (seedInitial rnd r0 ud ms) = fst (seedNext rnd r0 ud ms)"
    by (simp add: seedInitial_def sn)
qed

text \<open>
  A set fresh from the sampler is what the seeding loops expect: its particles are at
  their target positions and the arrays have three entries per particle.
\<close>

lemma fresh_set_at_rest:
  assumes "loadImage e url = Some img" "imgComplete img" "0 < naturalWidth img"
    "0 < naturalHeight img" "context2d e"
  shows "\<exists>ud. userData (meshes (snd (imageToParticles e p url s)) (nextMesh s)) = Some ud
           \<and> fst (imageToParticles e p url s) = Inr (nextMesh s)
           \<and> positions ud = originalPositions ud
           \<and> length (positions ud) = 3 * count ud"
proof -
  let ?px = "rasterize e url (letterbox (naturalWidth img) (naturalHeight img))"
  obtain ud where ud:
      "userData (fst (buildMesh (mathRandom e) (randomUsed s) ?px canvasSize canvasSize
          (sampleStep (particleDensity p)))) = Some ud"
      "positions ud = concat (map (pixelPosition canvasSize canvasSize)
          (survivors ?px canvasSize canvasSize (sampleStep (particleDensity p))))"
      "originalPositions ud = concat (map (pixelPosition canvasSize canvasSize)
          (survivors ?px canvasSize canvasSize (sampleStep (particleDensity p))))"
      "count ud = length (survivors ?px canvasSize canvasSize (sampleStep (particleDensity p)))"
    using buildMesh_userData [of "mathRandom e" "randomUsed s" ?px canvasSize canvasSize
        "sampleStep (particleDensity p)"] by blast
  have "userData (meshes (snd (imageToParticles e p url s)) (nextMesh s)) = Some ud"
    "fst (imageToParticles e p url s) = Inr (nextMesh s)"
    using ud(1) by (simp_all add: imageToParticles_resolves [OF assms])
  moreover have "positions ud = originalPositions ud" by (simp add: ud(2,3))
  moreover have "length (positions ud) = 3 * count ud"
    by (simp add: ud(2,4) length_concat_triples)
  ultimately show ?thesis by blast
qed

lemma origin_in_view:
  assumes off: "a \<noteq> 0 \<or> c \<noteq> 0"
    and near: "near \<le> norm3 (a, b, c)" and far: "norm3 (a, b, c) \<le> far"
    and t: "0 \<le> tan (fov * pi / 180 / 2)" and asp: "0 \<le> aspect"
  shows "inFrustum (a, b, c) fov aspect near far (0, 0, 0)"
proof -
  let ?f = "sub3 (0, 0, 0) (a, b, c)"
  let ?r = "cross3 ?f (0, 1, 0)"
  let ?u = "cross3 ?r ?f"
  have s: "0 < a * a + b * b + c * c"
  proof -
    have "0 < a * a + c * c" using off by (metis add_pos_nonneg add_nonneg_pos
          mult_eq_0_iff not_real_square_gt_zero zero_le_square)
    moreover have "0 \<le> b * b" by simp
    ultimately show ?thesis by linarith
  qed
  have nf: "norm3 ?f = norm3 (a, b, c)" by (simp add: norm3_def)
  define n where "n = norm3 ?f"
  have "dot3 ?f ?f = n * n" using s by (simp add: n_def norm3_def)
  moreover have "0 < n" using s by (simp add: n_def norm3_def)
  ultimately have "dot3 ?f ?f / n = n" by simp
  then have depth: "dot3 ?f ?f / norm3 ?f = norm3 (a, b, c)"
    unfolding n_def nf .
  have r0: "dot3 ?f ?r = 0" by (simp add: algebra_simps)
  have u0: "dot3 ?f ?u = 0" by (simp add: algebra_simps)
  have n0: "0 \<le> norm3 (a, b, c)" by (simp add: norm3_def)
  have "inFrustum (a, b, c) fov aspect near far (0, 0, 0) =
      (near \<le> norm3 (a, b, c) \<and> norm3 (a, b, c) \<le> far
       \<and> \<bar>dot3 ?f ?u / norm3 ?u\<bar> \<le> norm3 (a, b, c) * tan (fov * pi / 180 / 2)
       \<and> \<bar>dot3 ?f ?r / norm3 ?r\<bar> \<le> norm3 (a, b, c) * tan (fov * pi / 180 / 2) * aspect)"
    unfolding inFrustum_def Let_def depth by (simp only: depth)
  then show ?thesis
    using near far t asp n0 by (simp only: r0 u0) simp
qed

lemma scaled_unit:
  fixes x y :: real
  shows "y * 2 * (y * 2) + x * 2 * (x * 2) = 4 * (x * x + y * y)"
  by (simp add: algebra_simps)

lemma camera_distance:
  "norm3 (cameraPosition now 0 0 5) = sqrt 29"
proof -
  define t :: real where "t = of_int now * (1 / 10000)"
  have unit: "cos t * cos t + sin t * sin t = 1" by (rule sin_cos_squared_add3)
  have "sin t * 2 * (sin t * 2) + cos t * 2 * (cos t * 2) = 4 * (cos t * cos t + sin t * sin t)"
    by (rule scaled_unit)
  then have "sin t * 2 * (sin t * 2) + cos t * 2 * (cos t * 2) + 5 * 5 = 29"
    by (simp only: unit)
  then have "dot3 (sin t * 2, cos t * 2, 5) (sin t * 2, cos t * 2, 5) = 29" by simp
  then show ?thesis by (simp only: cameraPosition_def norm3_def t_def) simp
qed

lemma sqrt29_bounds: "1 / 10 \<le> sqrt 29" "sqrt 29 \<le> 1000"
proof -
  show "1 / 10 \<le> sqrt (29::real)" by (rule real_le_rsqrt) (simp add: power2_eq_square)
  show "sqrt (29::real) \<le> 1000" by (rule real_le_lsqrt) simp_all
qed

lemma half_fov_tan: "0 \<le> tan (5 * pi / 180 / 2)"
proof -
  have "0 < 5 * pi / 180 / 2" by simp
  moreover have "5 * pi / 180 / 2 < pi / 2" by simp
  ultimately have "0 < tan (5 * pi / 180 / 2)" by (rule tan_gt_zero)
  then show ?thesis by simp
qed

text \<open>
  C8 as stated does not hold. The centre pixel \<open>(800, 800)\<close> of the canvas is a target
  position \<open>(0, 0, 0)\<close>; scaling leaves it on the z axis, and with \<open>Math.random() = 0.5\<close>
  the seeded position is the origin, the point the camera looks at, which lies inside
  the frustum (camera of \<open>initScene\<close>, at the place \<open>animate\<close> gives it with
  \<open>currentCameraZ = 5\<close> and no mouse rotation). Also \<open>z\<close> can be -10, for
  \<open>Math.random() = 0\<close>.
\<close>

theorem far_seeding_frustum_counterexample:
  "pixelPosition canvasSize canvasSize (800, 800) = [Fin 0, Fin 0, Fin 0]
   \<and> farPosition (Fin 0) (Fin 0) (1 / 2) = (Fin 0, Fin 0, Fin 0)
   \<and> inFrustum (cameraPosition 1762110000000 0 0 5) 5 (16 / 9) (1 / 10) 1000 (0, 0, 0)
   \<and> snd (snd (farPosition (Fin 0) (Fin 0) 0)) = Fin (- 10)"
proof -
  have p: "pixelPosition canvasSize canvasSize (800, 800) = [Fin 0, Fin 0, Fin 0]"
    by (simp add: pixelPosition_def canvasSize_def)
  have f: "farPosition (Fin 0) (Fin 0) (1 / 2) = (Fin 0, Fin 0, Fin 0)"
    by (simp add: farPosition_fin)
  have z: "snd (snd (farPosition (Fin 0) (Fin 0) 0)) = Fin (- 10)"
    by (simp add: farPosition_fin)
  obtain a b where cam: "cameraPosition 1762110000000 0 0 5 = (a, b, 5)"
    by (simp add: cameraPosition_def)
  have n: "norm3 (a, b, 5) = sqrt 29" using camera_distance [of 1762110000000] cam by simp
  have v: "inFrustum (cameraPosition 1762110000000 0 0 5) 5 (16 / 9) (1 / 10) 1000 (0, 0, 0)"
    unfolding cam
  proof (rule origin_in_view)
    show "a \<noteq> 0 \<or> (5::real) \<noteq> 0" by simp
    show "1 / 10 \<le> norm3 (a, b, 5)" unfolding n by (rule sqrt29_bounds(1))
    show "norm3 (a, b, 5) \<le> 1000" unfolding n by (rule sqrt29_bounds(2))
    show "0 \<le> tan (5 * pi / 180 / 2)" by (rule half_fov_tan)
    show "(0::real) \<le> 16 / 9" by simp
  qed
  show ?thesis using p f v z by blast
qed

text \<open>
  C8, as amended. In a set that is at rest with three array entries per particle (as it
  comes from the sampler), both seeding loops, the one of \<open>transitionToNext\<close> and the one
  of \<open>loadInitialImage\<close>, put particle \<open>i\<close> with target \<open>(x, y)\<close> at
  \<open>(x * scale, y * scale, z)\<close> with \<open>scale = 10 + sqrt(x^2 + y^2) * 5\<close>, at least 10, and
  \<open>z = (Math.random() - 0.5) * 20\<close>, which lies in [-10, 10) for a random value in
  [0, 1). Nothing is said about the frustum.
\<close>

theorem far_seeding:
  fixes x y :: real and rnd :: "nat \<Rightarrow> real" and used i :: nat
  assumes "length (positions ud) = 3 * count ud"
    and "positions ud = originalPositions ud"
    and "i < count ud"
    and "originalPositions ud ! (i * 3) = Fin x"
    and "originalPositions ud ! (i * 3 + 1) = Fin y"
    and "0 \<le> rnd (used + i)" "rnd (used + i) < 1"
  defines "scale \<equiv> 10 + sqrt (x\<^sup>2 + y\<^sup>2) * 5"
    and "z \<equiv> (rnd (used + i) - 1 / 2) * 20"
  shows "fst (seedNext rnd used ud ms) ! (i * 3) = Fin (x * scale)
       \<and> fst (seedNext rnd used ud ms) ! (i * 3 + 1) = Fin (y * scale)
       \<and> fst (seedNext rnd used ud ms) ! (i * 3 + 2) = Fin z
       \<and> fst (seedInitial rnd used ud ms) ! (i * 3) = Fin (x * scale)
       \<and> fst (seedInitial rnd used ud ms) ! (i * 3 + 1) = Fin (y * scale)
       \<and> fst (seedInitial rnd used ud ms) ! (i * 3 + 2) = Fin z
       \<and> 10 \<le> scale \<and> - 10 \<le> z \<and> z < 10"
proof -
  have far: "farPosition (originalPositions ud ! (i * 3)) (originalPositions ud ! (i * 3 + 1))
               (rnd (used + i)) = (Fin (x * scale), Fin (y * scale), Fin z)"
    by (simp only: assms(4,5) farPosition_fin scale_def z_def)
  note sp = seed_positions [OF assms(1-3), of rnd used ms]
  have n: "fst (seedNext rnd used ud ms) ! (i * 3) = Fin (x * scale)"
    "fst (seedNext rnd used ud ms) ! (i * 3 + 1) = Fin (y * scale)"
    "fst (seedNext rnd used ud ms) ! (i * 3 + 2) = Fin z"
    by (simp_all only: sp(1-3) far fst_conv snd_conv)
  have ini: "fst (seedInitial rnd used ud ms) = fst (seedNext rnd used ud ms)" by (rule sp(4))
  have s: "10 \<le> scale" by (simp add: scale_def)
  have zb: "- 10 \<le> z" "z < 10" using assms(6,7) by (simp_all add: z_def)
  show ?thesis using n s zb by (simp only: ini)
qed

theorem far_seeding_witness:
  "length (positions ((exampleData 0)\<lparr>positions := originalPositions (exampleData 0)\<rparr>))
     = 3 * count ((exampleData 0)\<lparr>positions := originalPositions (exampleData 0)\<rparr>)
   \<and> 0 < count ((exampleData 0)\<lparr>positions := originalPositions (exampleData 0)\<rparr>)
   \<and> (0::real) \<le> 1 / 2 \<and> (1 / 2 :: real) < 1
   \<and> fst (seedNext (\<lambda>k. 1 / 2) 0
             ((exampleData 0)\<lparr>positions := originalPositions (exampleData 0)\<rparr>) []) ! (0 * 3)
        = Fin (10 + sqrt 2 * 5)
   \<and> fst (seedNext (\<lambda>k. 1 / 2) 0
             ((exampleData 0)\<lparr>positions := originalPositions (exampleData 0)\<rparr>) []) ! (0 * 3 + 1)
        = Fin (10 + sqrt 2 * 5)
   \<and> fst (seedNext (\<lambda>k. 1 / 2) 0
             ((exampleData 0)\<lparr>positions := originalPositions (exampleData 0)\<rparr>) []) ! (0 * 3 + 2)
        = Fin 0
   \<and> fst (seedInitial (\<lambda>k. 1 / 2) 0
             ((exampleData 0)\<lparr>positions := originalPositions (exampleData 0)\<rparr>) []) ! (0 * 3)
        = Fin (10 + sqrt 2 * 5)"
proof -
  let ?ud = "(exampleData 0)\<lparr>positions := originalPositions (exampleData 0)\<rparr>"
  have h1: "length (positions ?ud) = 3 * count ?ud" by (simp add: exampleData_def)
  have h2: "positions ?ud = originalPositions ?ud" by simp
  have h3: "0 < count ?ud" by (simp add: exampleData_def)
  have h4: "originalPositions ?ud ! (0 * 3) = Fin 1" by (simp add: exampleData_def)
  have h5: "originalPositions ?ud ! (0 * 3 + 1) = Fin 1" by (simp add: exampleData_def)
  have h6: "(0::real) \<le> (\<lambda>k::nat. 1 / 2) (0 + 0)" by simp
  have h7: "(\<lambda>k::nat. 1 / 2 :: real) (0 + 0) < 1" by simp
  note t = far_seeding [where used = 0 and ms = "[]", OF h1 h2 h3 h4 h5 h6 h7]
  show ?thesis using t h1 h3 by simp
qed

section \<open>The start of a session\<close>

text \<open>
  A successful \<open>transitionToNext\<close> is the first frame of a session, run in a state in
  which the new set, seeded, is \<open>nextParticles\<close> and in the scene, the busy flag is set
  and every other mesh is as before.
\<close>

lemma transitionToNext_starts_session:
  assumes idle: "\<not> isTransitioning s" and some: "images p \<noteq> []"
    and url: "url = images p ! ((currentImageIndex s + 1) mod length (images p))"
    and named: "url \<noteq> []"
    and img: "loadImage e url = Some img" "imgComplete img" "0 < naturalWidth img"
      "0 < naturalHeight img" "context2d e"
  shows "\<exists>ud s2 s5.
           imageToParticles e p url (s\<lparr>isTransitioning := True\<rparr>) = (Inr (nextMesh s), s2)
         \<and> userData (meshes s2 (nextMesh s)) = Some ud
         \<and> positions ud = originalPositions ud
         \<and> length (positions ud) = 3 * count ud
         \<and> transitionToNext e p tStart tFrame s =
             animateTransition e p
               \<lparr>startTime = tStart, duration = transitionDuration p,
                nextIndex = (currentImageIndex s + 1) mod length (images p)\<rparr> tFrame s5
         \<and> nextParticles s5 = Some (nextMesh s)
         \<and> userData (meshes s5 (nextMesh s)) =
               Some (ud\<lparr>positions := fst (seedNext (mathRandom e) (randomUsed s2) ud
                  (instanceMatrix (meshes s2 (nextMesh s))))\<rparr>)
         \<and> currentParticles s5 = currentParticles s
         \<and> isTransitioning s5
         \<and> scene s5 = sceneAdd (nextMesh s) (scene s)
         \<and> (\<forall>k. k \<noteq> nextMesh s \<longrightarrow> meshes s5 k = meshes s k)"
proof -
  let ?s1 = "s\<lparr>isTransitioning := True\<rparr>"
  let ?n = "nextMesh s"
  obtain s2 where r: "imageToParticles e p url ?s1 = (Inr ?n, s2)"
    by (simp add: imageToParticles_resolves [OF img])
  have s2: "scene s2 = scene s" "currentParticles s2 = currentParticles s"
    "isTransitioning s2" "\<And>k. k \<noteq> ?n \<Longrightarrow> meshes s2 k = meshes s k"
    using r by (auto simp: imageToParticles_resolves [OF img])
  obtain ud where ud: "userData (meshes s2 ?n) = Some ud"
      "positions ud = originalPositions ud" "length (positions ud) = 3 * count ud"
    using fresh_set_at_rest [OF img, of p ?s1] r by auto
  let ?st = "seedNext (mathRandom e) (randomUsed s2) ud (instanceMatrix (meshes s2 ?n))"
  let ?s5 = "s2\<lparr>nextParticles := Some ?n,
                 meshes := (meshes s2)(?n := withPositions (meshes s2 ?n) ud ?st),
                 randomUsed := randomUsed s2 + count ud,
                 scene := sceneAdd ?n (scene s2)\<rparr>"
  have u: "images p ! (Suc (currentImageIndex s) mod length (images p)) = url"
    using url by simp
  have t: "transitionToNext e p tStart tFrame s =
          animateTransition e p
               \<lparr>startTime = tStart, duration = transitionDuration p,
                nextIndex = (currentImageIndex s + 1) mod length (images p)\<rparr> tFrame ?s5"
    using idle some named ud(1) by (simp add: transitionToNext_def Let_def u r)
  have f: "nextParticles ?s5 = Some ?n" "currentParticles ?s5 = currentParticles s"
    "isTransitioning ?s5" "scene ?s5 = sceneAdd ?n (scene s)"
    "\<forall>k. k \<noteq> ?n \<longrightarrow> meshes ?s5 k = meshes s k"
    "userData (meshes ?s5 ?n) = Some (ud\<lparr>positions := fst ?st\<rparr>)"
    using s2 by (simp_all add: withPositions_def)
  show ?thesis
    by (intro exI [of _ ud] exI [of _ s2] exI [of _ ?s5] conjI r ud t f)
qed

section \<open>Rounding to the nearest double\<close>







lemma pow2_powr: "pow2 e = 2 powr of_int e"
  by (simp add: pow2_def powr_int)

lemma pow2_pos [simp]: "0 < pow2 e"
  by (simp add: pow2_powr)

lemma pow2_nonzero [simp]: "pow2 e \<noteq> 0"
  using pow2_pos [of e] by linarith

lemma pow2_nonneg [simp]: "0 \<le> pow2 e"
  using pow2_pos [of e] by linarith











lemma expo64_uminus [simp]: "expo64 (- x) = expo64 x"
  by (simp add: expo64_def)


lemma round64_0 [simp]: "round64 0 = 0"
  by (simp add: round64_def)











section \<open>The implode step in double arithmetic\<close>























end
